theory Spec2Isabelle
  imports Main "HOL-Library.AList"
begin

section \<open>The file-system incremental cache (file-system-cache.ts)\<close>

text \<open>
  A shallow embedding of \<^verbatim>\<open>FileSystemCache\<close>: the two module-level variables
  (\<^verbatim>\<open>memoryCache\<close>, \<^verbatim>\<open>tagsManifest\<close>), the file system behind the \<^verbatim>\<open>CacheFs\<close>
  capability and the clock are the fields of one explicit state record; every method is
  a function from this state to a result and the next state. An exception is the
  \<open>Inl\<close> of a sum, a \<^verbatim>\<open>try\<close>/\<^verbatim>\<open>catch\<close> is a combinator, and every call of the file
  system capability is written to a trace, so that what a method reads and writes can be
  stated.

  Modelling decisions, all of them about code that is outside the class:
  \<^item> Timestamps (\<^verbatim>\<open>Date.now()\<close>, \<^verbatim>\<open>mtime.getTime()\<close>, \<^verbatim>\<open>revalidatedAt\<close>) are
    integers, the milliseconds of a valid date; \<open>0\<close> is the falsy number of JavaScript.
    The clock is one field of the state and does not advance inside one call.
  \<^item> A text that travels through a file is the type \<open>content\<close>: either raw text that is
    not a JSON document, or the JSON document of one of the four shapes this module
    writes. \<^verbatim>\<open>JSON.stringify\<close> is the constructor, \<^verbatim>\<open>JSON.parse\<close> succeeds exactly
    on the constructor of the declared type and throws on everything else.
  \<^item> The debug trace (\<^verbatim>\<open>console.log\<close> under \<^verbatim>\<open>this.debug\<close>) changes no state and
    is left out; \<^verbatim>\<open>console.warn\<close> is an event of the trace.
\<close>

subsection \<open>Data model\<close>

type_synonym json = string

datatype header_value = HString string | HStrings "string list" | HNumber int

type_synonym headers = "(string \<times> header_value) list"

text \<open>\<^verbatim>\<open>RouteMetadata\<close>, the JSON of the \<^verbatim>\<open>.meta\<close> sidecar.\<close>

record RouteMetadata =
  meta_headers :: "headers option"
  meta_status :: "int option"
  meta_postponed :: "string option"

text \<open>\<^verbatim>\<open>CachedFetchValue\<close>; its \<^verbatim>\<open>kind\<close> is always \<^verbatim>\<open>FETCH\<close>.\<close>

record CachedFetchValue =
  fv_data :: json
  fv_tags :: "string list option"
  fv_revalidate :: int

text \<open>\<^verbatim>\<open>TagsManifest\<close>: \<open>items\<close> maps a tag to its \<^verbatim>\<open>revalidatedAt\<close>, in the insertion
  order of the JavaScript object.\<close>

record TagsManifest =
  version :: int
  items :: "(string \<times> int) list"

datatype content =
    Raw string
  | MetaJson RouteMetadata
  | DataJson json
  | FetchJson CachedFetchValue
  | ManifestJson TagsManifest

datatype IncrementalCacheKind = APP_PAGE | APP_ROUTE | PAGES | FETCH | IMAGE

datatype CachedRouteKind =
  K_APP_PAGE | K_APP_ROUTE | K_PAGES | K_FETCH | K_REDIRECT | K_IMAGE

text \<open>\<^verbatim>\<open>IncrementalCacheValue\<close>, one constructor for each \<^verbatim>\<open>CachedRouteKind\<close>.
  \<open>CachedAppRoute body headers status\<close>,
  \<open>CachedAppPage html rscData postponed headers status\<close>,
  \<open>CachedPages html pageData headers status\<close>.\<close>

datatype IncrementalCacheValue =
    CachedRedirect json
  | CachedImage content
  | CachedFetch CachedFetchValue
  | CachedAppRoute content "headers option" "int option"
  | CachedAppPage content "content option" "string option" "headers option" "int option"
  | CachedPages content json "headers option" "int option"

fun kind_of :: "IncrementalCacheValue \<Rightarrow> CachedRouteKind" where
  "kind_of (CachedRedirect _) = K_REDIRECT"
| "kind_of (CachedImage _) = K_IMAGE"
| "kind_of (CachedFetch _) = K_FETCH"
| "kind_of (CachedAppRoute _ _ _) = K_APP_ROUTE"
| "kind_of (CachedAppPage _ _ _ _ _) = K_APP_PAGE"
| "kind_of (CachedPages _ _ _ _) = K_PAGES"

text \<open>\<^verbatim>\<open>CacheHandlerValue\<close>. Every entry this module builds has a \<^verbatim>\<open>lastModified\<close>;
  \<open>val\<close> is the field \<^verbatim>\<open>value\<close>, \<open>None\<close> for \<^verbatim>\<open>null\<close>.\<close>

record CacheHandlerValue =
  lastModified :: int
  val :: "IncrementalCacheValue option"

text \<open>Modelled from the spec: the memory tier is the class \<^verbatim>\<open>LRUCache\<close> of a compiled
  library that is not part of the source file. The spec gives its contract: \<^verbatim>\<open>get(key)\<close>,
  an entry or absent, and \<^verbatim>\<open>set(key, entry)\<close>, bounded by a configured maximum aggregate
  cost (the sum of the size estimator's outputs), evicting least-recently-used entries on
  overflow. The container is the list of its entries, the most recently used first, each
  with the cost it had when it was stored.\<close>

record LRUCache =
  lru_max :: int
  lru_list :: "(string \<times> CacheHandlerValue \<times> nat) list"

datatype fs_call = ReadFile string | Stat string | WriteFile string | Mkdir string

datatype event = FsCall fs_call | ConsoleWarn

datatype error = TypeError | FsError fs_call | SyntaxError | Invariant

text \<open>The state. \<open>files\<close> gives each path its content and modification time; \<open>faults\<close>
  says which calls of the file system capability fail whatever the files are.\<close>

record World =
  memoryCache :: "LRUCache option"
  tagsManifest :: "TagsManifest option"
  files :: "string \<Rightarrow> (content \<times> int) option"
  faults :: "fs_call \<Rightarrow> bool"
  now :: int
  trace :: "event list"

text \<open>Modelled from the spec: the constants imported from \<^verbatim>\<open>lib/constants\<close> are not in
  the source file; they are parameters, together with \<^verbatim>\<open>process.env.NEXT_RUNTIME\<close>. So
  are the two lengths the size estimator needs of a text that is kept as a document:
  \<open>doc_length\<close> is its \<^verbatim>\<open>.length\<close>, \<open>buffer_json_length\<close> is the length of
  \<^verbatim>\<open>JSON.stringify\<close> of a buffer.\<close>

record Env =
  NEXT_CACHE_TAGS_HEADER :: string
  NEXT_DATA_SUFFIX :: string
  NEXT_META_SUFFIX :: string
  RSC_PREFETCH_SUFFIX :: string
  RSC_SUFFIX :: string
  NEXT_RUNTIME :: "string option"
  doc_length :: "content \<Rightarrow> nat"
  buffer_json_length :: "content \<Rightarrow> nat"

text \<open>\<^verbatim>\<open>FileSystemCacheContext\<close>, the argument of the constructor.\<close>

record FileSystemCacheContext =
  ctx_fs :: bool
  ctx_flushToDisk :: bool
  ctx_serverDistDir :: string
  ctx_revalidatedTags :: "string list"
  ctx_maxMemoryCacheSize :: "int option"

text \<open>The private fields of an instance; \<open>has_fs\<close> says that \<^verbatim>\<open>this.fs\<close> is an object.\<close>

record FileSystemCache =
  has_fs :: bool
  flushToDisk :: bool
  serverDistDir :: string
  tagsManifestPath :: "string option"
  revalidatedTags :: "string list"

text \<open>The context of \<^verbatim>\<open>get\<close> and the context of \<^verbatim>\<open>set\<close>.\<close>

record GetCtx =
  tags :: "string list option"
  softTags :: "string list option"
  kind :: IncrementalCacheKind
  isRoutePPREnabled :: bool
  isFallback :: bool

record SetCtx =
  set_tags :: "string list option"
  set_isRoutePPREnabled :: bool
  set_isFallback :: bool

datatype TagsArg = OneTag string | ManyTags "string list"

subsection \<open>Results, exceptions and the file system capability\<close>

type_synonym 'a io = "World \<Rightarrow> (error + 'a) \<times> World"

definition ret :: "'a \<Rightarrow> 'a io" where
  "ret v = (\<lambda>s. (Inr v, s))"

definition throw :: "error \<Rightarrow> 'a io" where
  "throw e = (\<lambda>s. (Inl e, s))"

definition bind :: "'a io \<Rightarrow> ('a \<Rightarrow> 'b io) \<Rightarrow> 'b io" where
  "bind m f = (\<lambda>s. case m s of (Inl e, s') \<Rightarrow> (Inl e, s') | (Inr v, s') \<Rightarrow> f v s')"

definition try_catch :: "'a io \<Rightarrow> (error \<Rightarrow> 'a io) \<Rightarrow> 'a io" where
  "try_catch m h = (\<lambda>s. case m s of (Inl e, s') \<Rightarrow> h e s' | (Inr v, s') \<Rightarrow> (Inr v, s'))"

definition emit :: "event \<Rightarrow> unit io" where
  "emit e = (\<lambda>s. (Inr (), s\<lparr>trace := trace s @ [e]\<rparr>))"

text \<open>Each call of the capability is traced when it is made. Without a capability
  object the call itself is a \<^verbatim>\<open>TypeError\<close>. A read or a stat fails on a fault and on a
  missing file; a write or a mkdir fails on a fault. A write stamps the file with the
  clock.\<close>

definition fs_readFile :: "FileSystemCache \<Rightarrow> string \<Rightarrow> content io" where
  "fs_readFile this p = (\<lambda>s.
     if \<not> has_fs this then (Inl TypeError, s)
     else let s' = s\<lparr>trace := trace s @ [FsCall (ReadFile p)]\<rparr> in
       if faults s (ReadFile p) then (Inl (FsError (ReadFile p)), s')
       else (case files s p of
               None \<Rightarrow> (Inl (FsError (ReadFile p)), s')
             | Some f \<Rightarrow> (Inr (fst f), s')))"

definition fs_stat :: "FileSystemCache \<Rightarrow> string \<Rightarrow> int io" where
  "fs_stat this p = (\<lambda>s.
     if \<not> has_fs this then (Inl TypeError, s)
     else let s' = s\<lparr>trace := trace s @ [FsCall (Stat p)]\<rparr> in
       if faults s (Stat p) then (Inl (FsError (Stat p)), s')
       else (case files s p of
               None \<Rightarrow> (Inl (FsError (Stat p)), s')
             | Some f \<Rightarrow> (Inr (snd f), s')))"

definition fs_writeFile :: "FileSystemCache \<Rightarrow> string \<Rightarrow> content \<Rightarrow> unit io" where
  "fs_writeFile this p c = (\<lambda>s.
     if \<not> has_fs this then (Inl TypeError, s)
     else let s' = s\<lparr>trace := trace s @ [FsCall (WriteFile p)]\<rparr> in
       if faults s (WriteFile p) then (Inl (FsError (WriteFile p)), s')
       else (Inr (), s'\<lparr>files := (files s)(p \<mapsto> (c, now s))\<rparr>))"

definition fs_mkdir :: "FileSystemCache \<Rightarrow> string \<Rightarrow> unit io" where
  "fs_mkdir this p = (\<lambda>s.
     if \<not> has_fs this then (Inl TypeError, s)
     else let s' = s\<lparr>trace := trace s @ [FsCall (Mkdir p)]\<rparr> in
       if faults s (Mkdir p) then (Inl (FsError (Mkdir p)), s') else (Inr (), s'))"

text \<open>\<^verbatim>\<open>JSON.parse\<close> at each declared type.\<close>

definition JSON_parse_manifest :: "content \<Rightarrow> TagsManifest io" where
  "JSON_parse_manifest c = (case c of ManifestJson m \<Rightarrow> ret m | _ \<Rightarrow> throw SyntaxError)"

definition JSON_parse_meta :: "content \<Rightarrow> RouteMetadata io" where
  "JSON_parse_meta c = (case c of MetaJson m \<Rightarrow> ret m | _ \<Rightarrow> throw SyntaxError)"

definition JSON_parse_data :: "content \<Rightarrow> json io" where
  "JSON_parse_data c = (case c of DataJson d \<Rightarrow> ret d | _ \<Rightarrow> throw SyntaxError)"

definition JSON_parse_fetch :: "content \<Rightarrow> CachedFetchValue io" where
  "JSON_parse_fetch c = (case c of FetchJson v \<Rightarrow> ret v | _ \<Rightarrow> throw SyntaxError)"

subsection \<open>Paths and strings\<close>

text \<open>Modelled from the spec: \<^verbatim>\<open>path.join\<close> and \<^verbatim>\<open>path.dirname\<close> come from a module
  that is not in the source file. The path of a key is derived deterministically: the
  segments joined by a slash (no \<^verbatim>\<open>..\<close> is resolved), and the parent directory is the
  path up to its last slash.\<close>

fun path_join :: "string list \<Rightarrow> string" where
  "path_join [] = ''.''"
| "path_join [x] = x"
| "path_join (x # y # ys) = x @ ''/'' @ path_join (y # ys)"

definition path_dirname :: "string \<Rightarrow> string" where
  "path_dirname p =
     (if CHR ''/'' \<in> set p then rev (tl (dropWhile (\<lambda>c. c \<noteq> CHR ''/'') (rev p)))
      else ''.'')"

text \<open>\<^verbatim>\<open>s.replace(/\<dots>$/, new)\<close> for a literal suffix.\<close>

definition replace_suffix :: "string \<Rightarrow> string \<Rightarrow> string \<Rightarrow> string" where
  "replace_suffix suf new s =
     (if length suf \<le> length s \<and> drop (length s - length suf) s = suf
      then take (length s - length suf) s @ new else s)"

text \<open>\<^verbatim>\<open>s.split(',')\<close>: never empty, the empty string gives one empty field.\<close>

fun str_split :: "char \<Rightarrow> string \<Rightarrow> string list" where
  "str_split sep [] = [[]]"
| "str_split sep (c # cs) =
     (if c = sep then [] # str_split sep cs
      else (case str_split sep cs of
              [] \<Rightarrow> [[c]]
            | w # ws \<Rightarrow> (c # w) # ws))"

text \<open>\<^verbatim>\<open>getFilePath\<close>; the kinds are a closed type, so its \<^verbatim>\<open>default\<close> branch is
  unreachable.\<close>

fun getFilePath :: "FileSystemCache \<Rightarrow> string \<Rightarrow> IncrementalCacheKind \<Rightarrow> string" where
  "getFilePath this pathname FETCH =
     path_join [serverDistDir this, ''..'', ''cache'', ''fetch-cache'', pathname]"
| "getFilePath this pathname PAGES = path_join [serverDistDir this, ''pages'', pathname]"
| "getFilePath this pathname IMAGE = path_join [serverDistDir this, ''app'', pathname]"
| "getFilePath this pathname APP_PAGE = path_join [serverDistDir this, ''app'', pathname]"
| "getFilePath this pathname APP_ROUTE = path_join [serverDistDir this, ''app'', pathname]"

subsection \<open>The memory tier\<close>

text \<open>The size estimator, the \<^verbatim>\<open>length\<close> option that the constructor gives to
  \<^verbatim>\<open>LRUCache\<close>. A JSON payload is kept as its text, so the length of its
  \<^verbatim>\<open>JSON.stringify\<close> is the length of the text; an image is an invariant violation.\<close>

definition content_length :: "Env \<Rightarrow> content \<Rightarrow> nat" where
  "content_length E c = (case c of Raw t \<Rightarrow> length t | _ \<Rightarrow> doc_length E c)"

definition lru_length :: "Env \<Rightarrow> IncrementalCacheValue option \<Rightarrow> error + nat" where
  "lru_length E v =
     (case v of
        None \<Rightarrow> Inr 25
      | Some (CachedRedirect props) \<Rightarrow> Inr (length props)
      | Some (CachedImage b) \<Rightarrow> Inl Invariant
      | Some (CachedFetch f) \<Rightarrow> Inr (length (fv_data f))
      | Some (CachedAppRoute body hs st) \<Rightarrow> Inr (content_length E body)
      | Some (CachedAppPage html rscData postponed hs st) \<Rightarrow>
          Inr (content_length E html
               + (case rscData of None \<Rightarrow> 0 | Some b \<Rightarrow> buffer_json_length E b))
      | Some (CachedPages html pageData hs st) \<Rightarrow>
          Inr (content_length E html + length pageData))"

text \<open>Modelled from the spec: the operations of the container. Eviction drops entries
  from the least recently used end until the aggregate cost is within the bound: what
  stays is the longest run of most recently used entries whose costs fit. \<^verbatim>\<open>get\<close> makes
  the entry the most recently used one. \<^verbatim>\<open>set\<close> replaces the entry of the key; an entry
  whose own cost exceeds the bound is not stored.\<close>

fun lru_trim ::
  "int \<Rightarrow> (string \<times> CacheHandlerValue \<times> nat) list \<Rightarrow> (string \<times> CacheHandlerValue \<times> nat) list"
  where
  "lru_trim b [] = []"
| "lru_trim b (p # ps) =
     (if int (snd (snd p)) \<le> b then p # lru_trim (b - int (snd (snd p))) ps else [])"

definition lru_get :: "string \<Rightarrow> LRUCache \<Rightarrow> CacheHandlerValue option \<times> LRUCache" where
  "lru_get key c =
     (case map_of (lru_list c) key of
        None \<Rightarrow> (None, c)
      | Some v \<Rightarrow>
          (Some (fst v), c\<lparr>lru_list := (key, v) # filter (\<lambda>p. fst p \<noteq> key) (lru_list c)\<rparr>))"

definition lru_set :: "string \<Rightarrow> CacheHandlerValue \<Rightarrow> nat \<Rightarrow> LRUCache \<Rightarrow> LRUCache" where
  "lru_set key e n c =
     (let rest = filter (\<lambda>p. fst p \<noteq> key) (lru_list c) in
      if int n > lru_max c then c\<lparr>lru_list := rest\<rparr>
      else c\<lparr>lru_list := lru_trim (lru_max c) ((key, e, n) # rest)\<rparr>)"

text \<open>\<^verbatim>\<open>memoryCache?.get(key)\<close>: the entry found, and the state with the entry made the
  most recently used one.\<close>

definition mem_get :: "string \<Rightarrow> World \<Rightarrow> CacheHandlerValue option" where
  "mem_get key s = (case memoryCache s of None \<Rightarrow> None | Some c \<Rightarrow> fst (lru_get key c))"

definition mem_touch :: "string \<Rightarrow> World \<Rightarrow> World" where
  "mem_touch key s =
     (case memoryCache s of
        None \<Rightarrow> s
      | Some c \<Rightarrow> s\<lparr>memoryCache := Some (snd (lru_get key c))\<rparr>)"

text \<open>\<^verbatim>\<open>memoryCache?.set(key, entry)\<close>: the size estimator runs first, and what it throws
  is thrown by the call.\<close>

definition mem_set :: "Env \<Rightarrow> string \<Rightarrow> CacheHandlerValue \<Rightarrow> unit io" where
  "mem_set E key e = (\<lambda>s.
     case memoryCache s of
       None \<Rightarrow> (Inr (), s)
     | Some c \<Rightarrow>
         (case lru_length E (val e) of
            Inl err \<Rightarrow> (Inl err, s)
          | Inr n \<Rightarrow> (Inr (), s\<lparr>memoryCache := Some (lru_set key e n c)\<rparr>)))"

text \<open>The state after a \<^verbatim>\<open>set\<close> of the memory tier whose entry has the cost \<open>n\<close>.\<close>

definition mem_store :: "string \<Rightarrow> CacheHandlerValue \<Rightarrow> nat \<Rightarrow> World \<Rightarrow> World" where
  "mem_store key e n s =
     (case memoryCache s of
        None \<Rightarrow> s
      | Some c \<Rightarrow> s\<lparr>memoryCache := Some (lru_set key e n c)\<rparr>)"

subsection \<open>The tags manifest\<close>

definition empty_manifest :: TagsManifest where
  "empty_manifest = \<lparr>version = 1, items = []\<rparr>"

definition set_manifest :: "TagsManifest \<Rightarrow> unit io" where
  "set_manifest m = (\<lambda>s. (Inr (), s\<lparr>tagsManifest := Some m\<rparr>))"

text \<open>The guard \<^verbatim>\<open>!this.tagsManifestPath || !this.fs || tagsManifest\<close>.\<close>

definition load_skipped :: "FileSystemCache \<Rightarrow> World \<Rightarrow> bool" where
  "load_skipped this s \<longleftrightarrow>
     tagsManifestPath this = None \<or> tagsManifestPath this = Some [] \<or> \<not> has_fs this
     \<or> tagsManifest s \<noteq> None"

definition loadTagsManifest :: "FileSystemCache \<Rightarrow> unit io" where
  "loadTagsManifest this = (\<lambda>s.
     if load_skipped this s then (Inr (), s)
     else try_catch
            (bind (fs_readFile this (the (tagsManifestPath this)))
               (\<lambda>t. bind (JSON_parse_manifest t) set_manifest))
            (\<lambda>err. set_manifest empty_manifest) s)"

definition loadTagsManifestSync :: "FileSystemCache \<Rightarrow> unit io" where
  "loadTagsManifestSync this = (\<lambda>s.
     if load_skipped this s then (Inr (), s)
     else try_catch
            (bind (fs_readFile this (the (tagsManifestPath this)))
               (\<lambda>t. bind (JSON_parse_manifest t) set_manifest))
            (\<lambda>err. set_manifest empty_manifest) s)"

subsection \<open>revalidateTag\<close>

text \<open>The loop of \<^verbatim>\<open>revalidateTag\<close>: each tag gets \<^verbatim>\<open>revalidatedAt = Date.now()\<close>, in
  the manifest object itself.\<close>

fun mark_tags :: "int \<Rightarrow> string list \<Rightarrow> TagsManifest \<Rightarrow> TagsManifest" where
  "mark_tags t [] m = m"
| "mark_tags t (tag # rest) m = mark_tags t rest (m\<lparr>items := AList.update tag t (items m)\<rparr>)"

definition normalize_tags :: "TagsArg \<Rightarrow> string list" where
  "normalize_tags a = (case a of OneTag t \<Rightarrow> [t] | ManyTags ts \<Rightarrow> ts)"

definition revalidateTag :: "FileSystemCache \<Rightarrow> TagsArg \<Rightarrow> unit io" where
  "revalidateTag this arg =
     (let tags = normalize_tags arg in
      if tags = [] then ret ()
      else bind (loadTagsManifest this) (\<lambda>_ s.
        case tagsManifest s of
          None \<Rightarrow> (Inr (), s)
        | Some m \<Rightarrow>
            (case tagsManifestPath this of
               None \<Rightarrow> (Inr (), s)
             | Some p \<Rightarrow>
                 if p = [] then (Inr (), s)
                 else
                   let m' = mark_tags (now s) tags m in
                   try_catch
                     (bind (fs_mkdir this (path_dirname p))
                        (\<lambda>_. fs_writeFile this p (ManifestJson m')))
                     (\<lambda>err. emit ConsoleWarn)
                     (s\<lparr>tagsManifest := Some m'\<rparr>))))"

subsection \<open>set\<close>

text \<open>A payload that is \<^verbatim>\<open>undefined\<close> cannot be written: the call is a \<^verbatim>\<open>TypeError\<close>.\<close>

definition write_payload :: "FileSystemCache \<Rightarrow> string \<Rightarrow> content option \<Rightarrow> unit io" where
  "write_payload this p c =
     (case c of None \<Rightarrow> throw TypeError | Some d \<Rightarrow> fs_writeFile this p d)"

text \<open>The branch of \<^verbatim>\<open>set\<close> for \<^verbatim>\<open>PAGES\<close> and \<^verbatim>\<open>APP_PAGE\<close>; \<open>payload\<close> is
  \<^verbatim>\<open>isAppPath ? data.rscData : JSON.stringify(data.pageData)\<close> and \<open>meta\<close> is the
  sidecar that only an app page writes.\<close>

definition set_page ::
  "Env \<Rightarrow> FileSystemCache \<Rightarrow> string \<Rightarrow> SetCtx \<Rightarrow> bool \<Rightarrow> content \<Rightarrow> content option
     \<Rightarrow> RouteMetadata option \<Rightarrow> unit io" where
  "set_page E this key ctx isAppPath html payload meta =
     (let k = (if isAppPath then APP_PAGE else PAGES);
          htmlPath = getFilePath this (key @ ''.html'') k in
      bind (fs_mkdir this (path_dirname htmlPath)) (\<lambda>_.
      bind (fs_writeFile this htmlPath html) (\<lambda>_.
      bind (if \<not> set_isFallback ctx
            then write_payload this
                   (getFilePath this
                      (key @ (if isAppPath
                              then (if set_isRoutePPREnabled ctx
                                    then RSC_PREFETCH_SUFFIX E else RSC_SUFFIX E)
                              else NEXT_DATA_SUFFIX E)) k)
                   payload
            else ret ()) (\<lambda>_.
      (case meta of
         None \<Rightarrow> ret ()
       | Some m \<Rightarrow>
           fs_writeFile this (replace_suffix ''.html'' (NEXT_META_SUFFIX E) htmlPath)
             (MetaJson m))))))"

definition set_cache ::
  "Env \<Rightarrow> FileSystemCache \<Rightarrow> string \<Rightarrow> IncrementalCacheValue option \<Rightarrow> SetCtx \<Rightarrow> unit io"
  where
  "set_cache E this key data ctx =
     bind (\<lambda>s. mem_set E key \<lparr>lastModified = now s, val = data\<rparr> s) (\<lambda>_.
       if \<not> flushToDisk this then ret ()
       else (case data of
          None \<Rightarrow> ret ()
        | Some (CachedAppRoute body hs st) \<Rightarrow>
            (let filePath = getFilePath this (key @ ''.body'') APP_ROUTE in
             bind (fs_mkdir this (path_dirname filePath)) (\<lambda>_.
             bind (fs_writeFile this filePath body) (\<lambda>_.
             fs_writeFile this (replace_suffix ''.body'' (NEXT_META_SUFFIX E) filePath)
               (MetaJson \<lparr>meta_headers = hs, meta_status = st, meta_postponed = None\<rparr>))))
        | Some (CachedPages html pageData hs st) \<Rightarrow>
            set_page E this key ctx False html (Some (DataJson pageData)) None
        | Some (CachedAppPage html rscData postponed hs st) \<Rightarrow>
            set_page E this key ctx True html rscData
              (Some \<lparr>meta_headers = hs, meta_status = st, meta_postponed = postponed\<rparr>)
        | Some (CachedFetch v) \<Rightarrow>
            (let filePath = getFilePath this key FETCH in
             bind (fs_mkdir this (path_dirname filePath)) (\<lambda>_.
             fs_writeFile this filePath (FetchJson (v\<lparr>fv_tags := set_tags ctx\<rparr>))))
        | Some _ \<Rightarrow> throw Invariant))"

subsection \<open>get\<close>

text \<open>A block of \<^verbatim>\<open>get\<close> either returns from the method or goes on with a candidate.\<close>

datatype 'a flow = Return 'a | Continue 'a

text \<open>The \<^verbatim>\<open>try\<close> block of the \<^verbatim>\<open>APP_ROUTE\<close> branch.\<close>

definition read_app_route :: "Env \<Rightarrow> FileSystemCache \<Rightarrow> string \<Rightarrow> CacheHandlerValue io" where
  "read_app_route E this key =
     (let filePath = getFilePath this (key @ ''.body'') APP_ROUTE in
      bind (fs_readFile this filePath) (\<lambda>fileData.
      bind (fs_stat this filePath) (\<lambda>mtime.
      bind (fs_readFile this (replace_suffix ''.body'' (NEXT_META_SUFFIX E) filePath)) (\<lambda>t.
      bind (JSON_parse_meta t) (\<lambda>meta.
      ret \<lparr>lastModified = mtime,
           val = Some (CachedAppRoute fileData (meta_headers meta) (meta_status meta))\<rparr>)))))"

text \<open>\<^verbatim>\<open>tags?.every((tag) => storedTags?.includes(tag))\<close>; it is \<^verbatim>\<open>undefined\<close>, hence
  falsy, when no tags are requested.\<close>

definition tags_every :: "string list option \<Rightarrow> string list option \<Rightarrow> bool" where
  "tags_every ts storedTags =
     (case ts of
        None \<Rightarrow> False
      | Some l \<Rightarrow> list_all (\<lambda>tag. case storedTags of None \<Rightarrow> False
                                   | Some st \<Rightarrow> tag \<in> set st) l)"

text \<open>The end of the second \<^verbatim>\<open>try\<close> block: \<^verbatim>\<open>memoryCache?.set(key, data)\<close>.\<close>

definition seed_memory ::
  "Env \<Rightarrow> string \<Rightarrow> CacheHandlerValue \<Rightarrow> CacheHandlerValue option flow io" where
  "seed_memory E key data = bind (mem_set E key data) (\<lambda>_. ret (Continue (Some data)))"

text \<open>The \<^verbatim>\<open>FETCH\<close> branch. What \<^verbatim>\<open>JSON.parse\<close> returns is a \<^verbatim>\<open>CachedFetchValue\<close>, so the
  test \<^verbatim>\<open>data.value?.kind === CachedRouteKind.FETCH\<close> holds and only the test of the tags
  remains.\<close>

definition read_fetch ::
  "Env \<Rightarrow> FileSystemCache \<Rightarrow> string \<Rightarrow> GetCtx \<Rightarrow> content \<Rightarrow> int
     \<Rightarrow> CacheHandlerValue option flow io" where
  "read_fetch E this key ctx fileData mtime =
     (if \<not> flushToDisk this then ret (Return None)
      else bind (JSON_parse_fetch fileData) (\<lambda>parsedData.
        let data = \<lparr>lastModified = mtime, val = Some (CachedFetch parsedData)\<rparr> in
        bind (if \<not> tags_every (tags ctx) (fv_tags parsedData)
              then set_cache E this key (Some (CachedFetch parsedData))
                     \<lparr>set_tags = tags ctx, set_isRoutePPREnabled = isRoutePPREnabled ctx,
                      set_isFallback = False\<rparr>
              else ret ()) (\<lambda>_.
        seed_memory E key data)))"

text \<open>The inner \<^verbatim>\<open>try\<close> of the \<^verbatim>\<open>APP_PAGE\<close> branch: the metadata sidecar is read, and a
  failure leaves \<^verbatim>\<open>meta\<close> undefined.\<close>

definition try_read_meta :: "Env \<Rightarrow> FileSystemCache \<Rightarrow> string \<Rightarrow> RouteMetadata option io"
  where
  "try_read_meta E this filePath =
     try_catch
       (bind (fs_readFile this (replace_suffix ''.html'' (NEXT_META_SUFFIX E) filePath))
          (\<lambda>t. bind (JSON_parse_meta t) (\<lambda>m. ret (Some m))))
       (\<lambda>err. ret None)"

definition read_app_page ::
  "Env \<Rightarrow> FileSystemCache \<Rightarrow> string \<Rightarrow> GetCtx \<Rightarrow> string \<Rightarrow> content \<Rightarrow> int
     \<Rightarrow> CacheHandlerValue option flow io" where
  "read_app_page E this key ctx filePath fileData mtime =
     (if \<not> isFallback ctx
      then
        bind (try_read_meta E this filePath) (\<lambda>meta.
        bind (fs_readFile this
                (getFilePath this
                   (key @ (if isRoutePPREnabled ctx
                           then RSC_PREFETCH_SUFFIX E else RSC_SUFFIX E)) APP_PAGE))
          (\<lambda>rscData.
        seed_memory E key
          \<lparr>lastModified = mtime,
           val = Some (CachedAppPage fileData (Some rscData)
                   (case meta of None \<Rightarrow> None | Some m \<Rightarrow> meta_postponed m)
                   (case meta of None \<Rightarrow> None | Some m \<Rightarrow> meta_headers m)
                   (case meta of None \<Rightarrow> None | Some m \<Rightarrow> meta_status m))\<rparr>))
      else
        seed_memory E key
          \<lparr>lastModified = mtime, val = Some (CachedAppPage fileData None None None None)\<rparr>)"

text \<open>The \<^verbatim>\<open>PAGES\<close> branch; \<^verbatim>\<open>pageData\<close> starts as \<^verbatim>\<open>{}\<close> and \<^verbatim>\<open>meta\<close> is never assigned.\<close>

definition read_pages ::
  "Env \<Rightarrow> FileSystemCache \<Rightarrow> string \<Rightarrow> GetCtx \<Rightarrow> content \<Rightarrow> int
     \<Rightarrow> CacheHandlerValue option flow io" where
  "read_pages E this key ctx fileData mtime =
     bind (if \<not> isFallback ctx
           then bind (fs_readFile this
                        (getFilePath this (key @ NEXT_DATA_SUFFIX E) PAGES))
                  JSON_parse_data
           else ret ''{}'') (\<lambda>pageData.
     seed_memory E key
       \<lparr>lastModified = mtime, val = Some (CachedPages fileData pageData None None)\<rparr>)"

text \<open>The second \<^verbatim>\<open>try\<close> block: the content file and its stat, then the kind.\<close>

definition read_disk ::
  "Env \<Rightarrow> FileSystemCache \<Rightarrow> string \<Rightarrow> GetCtx \<Rightarrow> CacheHandlerValue option flow io" where
  "read_disk E this key ctx =
     (let filePath =
            getFilePath this (if kind ctx = FETCH then key else key @ ''.html'') (kind ctx) in
      bind (fs_readFile this filePath) (\<lambda>fileData.
      bind (fs_stat this filePath) (\<lambda>mtime.
        (case kind ctx of
           FETCH \<Rightarrow> read_fetch E this key ctx fileData mtime
         | APP_PAGE \<Rightarrow> read_app_page E this key ctx filePath fileData mtime
         | PAGES \<Rightarrow> read_pages E this key ctx fileData mtime
         | _ \<Rightarrow> throw Invariant))))"

text \<open>The first half of \<^verbatim>\<open>get\<close>: the memory tier, then the disk.\<close>

definition get_candidate ::
  "Env \<Rightarrow> FileSystemCache \<Rightarrow> string \<Rightarrow> GetCtx \<Rightarrow> CacheHandlerValue option flow io" where
  "get_candidate E this key ctx = (\<lambda>s.
     let data = mem_get key s; s0 = mem_touch key s in
     if data = None \<and> NEXT_RUNTIME E \<noteq> Some ''edge''
     then
       (if kind ctx = APP_ROUTE
        then try_catch
               (bind (read_app_route E this key) (\<lambda>cacheEntry. ret (Return (Some cacheEntry))))
               (\<lambda>err. ret (Return None)) s0
        else try_catch (read_disk E this key ctx) (\<lambda>err. ret (Return None)) s0)
     else (Inr (Continue data), s0))"

text \<open>The staleness test of one tag:
  \<^verbatim>\<open>items[tag]?.revalidatedAt && items[tag].revalidatedAt >= (data?.lastModified || Date.now())\<close>.\<close>

definition tag_stale :: "TagsManifest option \<Rightarrow> CacheHandlerValue \<Rightarrow> int \<Rightarrow> string \<Rightarrow> bool"
  where
  "tag_stale manifest data t tag =
     (case manifest of
        None \<Rightarrow> False
      | Some m \<Rightarrow>
          (case map_of (items m) tag of
             None \<Rightarrow> False
           | Some revalidatedAt \<Rightarrow>
               revalidatedAt \<noteq> 0
               \<and> revalidatedAt \<ge> (if lastModified data \<noteq> 0 then lastModified data else t)))"

definition cache_tags :: "Env \<Rightarrow> headers option \<Rightarrow> string list option" where
  "cache_tags E hs =
     (case hs of
        None \<Rightarrow> None
      | Some h \<Rightarrow>
          (case map_of h (NEXT_CACHE_TAGS_HEADER E) of
             Some (HString tagsHeader) \<Rightarrow> Some (str_split CHR '','' tagsHeader)
           | _ \<Rightarrow> None))"

definition check_page ::
  "Env \<Rightarrow> FileSystemCache \<Rightarrow> CacheHandlerValue \<Rightarrow> headers option
     \<Rightarrow> CacheHandlerValue option io" where
  "check_page E this data hs =
     (case cache_tags E hs of
        None \<Rightarrow> ret (Some data)
      | Some cacheTags \<Rightarrow>
          if cacheTags = [] then ret (Some data)
          else bind (loadTagsManifest this) (\<lambda>_ s.
            if list_ex (tag_stale (tagsManifest s) data (now s)) cacheTags
            then (Inr None, s) else (Inr (Some data), s)))"

definition check_fetch ::
  "FileSystemCache \<Rightarrow> GetCtx \<Rightarrow> CacheHandlerValue \<Rightarrow> CacheHandlerValue option io" where
  "check_fetch this ctx data =
     bind (loadTagsManifest this) (\<lambda>_ s.
       let combinedTags = (case tags ctx of None \<Rightarrow> [] | Some l \<Rightarrow> l)
                          @ (case softTags ctx of None \<Rightarrow> [] | Some l \<Rightarrow> l) in
       if list_ex (\<lambda>tag. tag \<in> set (revalidatedTags this)
                          \<or> tag_stale (tagsManifest s) data (now s) tag) combinedTags
       then (Inr None, s) else (Inr (Some data), s))"

text \<open>The second half of \<^verbatim>\<open>get\<close>: the staleness evaluation, by the kind of the value.\<close>

definition check_stale ::
  "Env \<Rightarrow> FileSystemCache \<Rightarrow> GetCtx \<Rightarrow> CacheHandlerValue option
     \<Rightarrow> CacheHandlerValue option io" where
  "check_stale E this ctx d =
     (case d of
        None \<Rightarrow> ret None
      | Some data \<Rightarrow>
          (case val data of
             Some (CachedAppPage html rscData postponed hs st) \<Rightarrow> check_page E this data hs
           | Some (CachedPages html pageData hs st) \<Rightarrow> check_page E this data hs
           | Some (CachedFetch v) \<Rightarrow> check_fetch this ctx data
           | _ \<Rightarrow> ret (Some data)))"

definition get ::
  "Env \<Rightarrow> FileSystemCache \<Rightarrow> string \<Rightarrow> GetCtx \<Rightarrow> CacheHandlerValue option io" where
  "get E this key ctx =
     bind (get_candidate E this key ctx) (\<lambda>c.
       case c of Return r \<Rightarrow> ret r | Continue d \<Rightarrow> check_stale E this ctx d)"

subsection \<open>The constructor\<close>

definition new_LRUCache :: "int \<Rightarrow> LRUCache" where
  "new_LRUCache m = \<lparr>lru_max = m, lru_list = []\<rparr>"

text \<open>\<^verbatim>\<open>if (ctx.maxMemoryCacheSize) { if (!memoryCache) { memoryCache = new LRUCache(..) } }\<close>\<close>

definition init_memory :: "FileSystemCacheContext \<Rightarrow> World \<Rightarrow> World" where
  "init_memory ctx s =
     (case ctx_maxMemoryCacheSize ctx of
        None \<Rightarrow> s
      | Some m \<Rightarrow>
          if m = 0 then s
          else (case memoryCache s of
                  None \<Rightarrow> s\<lparr>memoryCache := Some (new_LRUCache m)\<rparr>
                | Some c \<Rightarrow> s))"

definition constructor :: "FileSystemCacheContext \<Rightarrow> World \<Rightarrow> FileSystemCache \<times> World" where
  "constructor ctx s =
     (let this = \<lparr>has_fs = ctx_fs ctx, flushToDisk = ctx_flushToDisk ctx,
                  serverDistDir = ctx_serverDistDir ctx, tagsManifestPath = None,
                  revalidatedTags = ctx_revalidatedTags ctx\<rparr>;
          s1 = init_memory ctx s in
      if serverDistDir this \<noteq> [] \<and> has_fs this
      then
        (let this' = this\<lparr>tagsManifestPath :=
                      Some (path_join [serverDistDir this, ''..'', ''cache'', ''fetch-cache'',
                                       ''tags-manifest.json''])\<rparr>
         in (this', snd (loadTagsManifestSync this' s1)))
      else (this, s1))"

subsection \<open>Notions used in the statements\<close>

text \<open>What the metadata sidecar at a path parses to, if it can be read and parsed.\<close>

definition meta_at :: "World \<Rightarrow> string \<Rightarrow> RouteMetadata option" where
  "meta_at s p =
     (if faults s (ReadFile p) then None
      else (case files s p of Some (MetaJson m, t) \<Rightarrow> Some m | _ \<Rightarrow> None))"

text \<open>The tags a candidate is checked against: the fields of its cache-tags header for a
  page-like value, the request tags and the soft tags for a fetch value.\<close>

definition tagged :: "Env \<Rightarrow> GetCtx \<Rightarrow> CacheHandlerValue \<Rightarrow> string \<Rightarrow> bool" where
  "tagged E ctx data t =
     (case val data of
        Some (CachedAppPage html rscData postponed hs st) \<Rightarrow>
          (case cache_tags E hs of None \<Rightarrow> False | Some l \<Rightarrow> t \<in> set l)
      | Some (CachedPages html pageData hs st) \<Rightarrow>
          (case cache_tags E hs of None \<Rightarrow> False | Some l \<Rightarrow> t \<in> set l)
      | Some (CachedFetch v) \<Rightarrow>
          t \<in> set ((case tags ctx of None \<Rightarrow> [] | Some l \<Rightarrow> l)
                   @ (case softTags ctx of None \<Rightarrow> [] | Some l \<Rightarrow> l))
      | _ \<Rightarrow> False)"

text \<open>The number of file reads in a trace.\<close>

definition file_reads :: "event list \<Rightarrow> nat" where
  "file_reads evs =
     length (filter (\<lambda>e. case e of FsCall (ReadFile p) \<Rightarrow> True | _ \<Rightarrow> False) evs)"

text \<open>The manifest file at \<open>p\<close> cannot be read (a fault, or no such file) or does not parse.\<close>

definition manifest_unreadable :: "World \<Rightarrow> string \<Rightarrow> bool" where
  "manifest_unreadable s p =
     (if faults s (ReadFile p) then True
      else (case files s p of Some (ManifestJson m, t) \<Rightarrow> False | _ \<Rightarrow> True))"







text \<open>The events that a call has added to the trace.\<close>

definition new_events :: "World \<Rightarrow> World \<Rightarrow> event list" where
  "new_events s s' = drop (length (trace s)) (trace s')"

text \<open>The paths of a page under a key: its content file, its metadata sidecar, and its
  data-payload files (both suffixes for an app page).\<close>

definition html_path :: "FileSystemCache \<Rightarrow> string \<Rightarrow> bool \<Rightarrow> string" where
  "html_path this key isAppPath =
     getFilePath this (key @ ''.html'') (if isAppPath then APP_PAGE else PAGES)"

definition meta_path :: "Env \<Rightarrow> FileSystemCache \<Rightarrow> string \<Rightarrow> string" where
  "meta_path E this key =
     replace_suffix ''.html'' (NEXT_META_SUFFIX E) (getFilePath this (key @ ''.html'') APP_PAGE)"

definition payload_paths :: "Env \<Rightarrow> FileSystemCache \<Rightarrow> string \<Rightarrow> bool \<Rightarrow> string list" where
  "payload_paths E this key isAppPath =
     (if isAppPath
      then [getFilePath this (key @ RSC_PREFETCH_SUFFIX E) APP_PAGE,
            getFilePath this (key @ RSC_SUFFIX E) APP_PAGE]
      else [getFilePath this (key @ NEXT_DATA_SUFFIX E) PAGES])"

text \<open>The suffixes name different files: no data-payload suffix is the suffix of the
  content file or of the sidecar, and the sidecar is not the content file.\<close>

definition suffixes_distinct :: "Env \<Rightarrow> bool" where
  "suffixes_distinct E =
     (''.html'' \<notin> set [NEXT_DATA_SUFFIX E, RSC_SUFFIX E, RSC_PREFETCH_SUFFIX E,
                          NEXT_META_SUFFIX E]
      \<and> NEXT_META_SUFFIX E \<notin> set [RSC_SUFFIX E, RSC_PREFETCH_SUFFIX E])"

text \<open>The manifest path of an instance is as the constructor leaves it.\<close>

definition constructed :: "FileSystemCache \<Rightarrow> bool" where
  "constructed this =
     (case tagsManifestPath this of
        None \<Rightarrow> True
      | Some p \<Rightarrow> p = path_join [serverDistDir this, ''..'', ''cache'', ''fetch-cache'',
                                  ''tags-manifest.json''])"

subsection \<open>Example inputs\<close>

text \<open>An environment with the suffixes and the header name of a usual build, an instance
  as the constructor makes it for the directory \<^verbatim>\<open>d\<close>, and a state with an empty memory
  tier of bound \<open>50\<close>, no manifest loaded, no file and no fault. A text kept as a document
  counts \<open>40\<close> for the size estimator.\<close>

definition E0 :: Env where
  "E0 = \<lparr>NEXT_CACHE_TAGS_HEADER = ''x-next-cache-tags'', NEXT_DATA_SUFFIX = ''.json'',
         NEXT_META_SUFFIX = ''.meta'', RSC_PREFETCH_SUFFIX = ''.prefetch.rsc'',
         RSC_SUFFIX = ''.rsc'', NEXT_RUNTIME = None, doc_length = (\<lambda>c. 40),
         buffer_json_length = (\<lambda>c. 40)\<rparr>"

definition this0 :: FileSystemCache where
  "this0 = \<lparr>has_fs = True, flushToDisk = True, serverDistDir = ''d'',
            tagsManifestPath = Some ''d/../cache/fetch-cache/tags-manifest.json'',
            revalidatedTags = []\<rparr>"

definition world0 :: World where
  "world0 = \<lparr>memoryCache = Some (new_LRUCache 50), tagsManifest = None,
             files = (\<lambda>p. None), faults = (\<lambda>c. False), now = 1000, trace = []\<rparr>"

definition ctx0 :: "IncrementalCacheKind \<Rightarrow> GetCtx" where
  "ctx0 k = \<lparr>tags = None, softTags = None, kind = k, isRoutePPREnabled = False,
            isFallback = False\<rparr>"

text \<open>A legacy page written at \<open>lm\<close> whose cache-tags header lists the tags \<^verbatim>\<open>a\<close> and
  \<^verbatim>\<open>b\<close>, and a state that holds it in the memory tier under the key \<^verbatim>\<open>k\<close>, with a loaded
  manifest that records \<^verbatim>\<open>a\<close> revalidated at \<open>r\<close>.\<close>

definition page_entry :: "int \<Rightarrow> CacheHandlerValue" where
  "page_entry lm =
     \<lparr>lastModified = lm,
      val = Some (CachedPages (Raw ''<p>hi</p>'') ''{}''
              (Some [(''x-next-cache-tags'', HString ''a,b'')]) (Some 200))\<rparr>"

definition world_page :: "int \<Rightarrow> int \<Rightarrow> World" where
  "world_page lm r =
     world0\<lparr>memoryCache := Some \<lparr>lru_max = 50, lru_list = [(''k'', page_entry lm, 11)]\<rparr>,
            tagsManifest := Some \<lparr>version = 1, items = [(''a'', r)]\<rparr>\<rparr>"

text \<open>A stored fetch value with the given tag list, a state whose disk holds it under the
  key \<^verbatim>\<open>k\<close> (written at \<open>500\<close>) with an empty manifest loaded, and a request for the
  tags \<open>ts\<close>.\<close>

definition fetch_value :: "string list option \<Rightarrow> CachedFetchValue" where
  "fetch_value st = \<lparr>fv_data = ''{}'', fv_tags = st, fv_revalidate = 60\<rparr>"

definition world_fetch :: "string list option \<Rightarrow> World" where
  "world_fetch st =
     world0\<lparr>files := [''d/../cache/fetch-cache/k'' \<mapsto> (FetchJson (fetch_value st), 500)],
            tagsManifest := Some empty_manifest\<rparr>"

definition ctx_fetch :: "string list \<Rightarrow> GetCtx" where
  "ctx_fetch ts = (ctx0 FETCH)\<lparr>tags := Some ts\<rparr>"

text \<open>A state whose disk holds a route response under the key \<^verbatim>\<open>k\<close>: the body and the
  metadata sidecar.\<close>

definition world_route :: World where
  "world_route =
     world0\<lparr>files :=
       [''d/app/k.body'' \<mapsto> (Raw ''ok'', 500),
        ''d/app/k.meta'' \<mapsto>
          (MetaJson \<lparr>meta_headers = None, meta_status = Some 200, meta_postponed = None\<rparr>,
           500)]\<rparr>"

definition route_entry :: CacheHandlerValue where
  "route_entry = \<lparr>lastModified = 500, val = Some (CachedAppRoute (Raw ''ok'') None (Some 200))\<rparr>"

text \<open>Constructor arguments for the directory \<^verbatim>\<open>d\<close> with a given memory bound.\<close>

definition fs_ctx :: "int option \<Rightarrow> FileSystemCacheContext" where
  "fs_ctx m = \<lparr>ctx_fs = True, ctx_flushToDisk = True, ctx_serverDistDir = ''d'',
              ctx_revalidatedTags = [], ctx_maxMemoryCacheSize = m\<rparr>"

text \<open>A process that loaded the manifest when it held only the tag \<^verbatim>\<open>a\<close>; since then
  another process has written the tag \<^verbatim>\<open>b\<close> to the file.\<close>

definition world_behind :: World where
  "world_behind =
     world0\<lparr>tagsManifest := Some \<lparr>version = 1, items = [(''a'', 1)]\<rparr>,
            files := [''d/../cache/fetch-cache/tags-manifest.json'' \<mapsto>
                        (ManifestJson \<lparr>version = 1, items = [(''a'', 1), (''b'', 50)]\<rparr>, 60)]\<rparr>"

text \<open>A state in which the manifest file cannot be written.\<close>

definition world_readonly :: World where
  "world_readonly =
     world0\<lparr>faults := (\<lambda>c. c = WriteFile ''d/../cache/fetch-cache/tags-manifest.json'')\<rparr>"

text \<open>A state whose disk holds an app page under the key \<^verbatim>\<open>k\<close>, the body and the data
  payload but no metadata sidecar; and a state whose disk holds a legacy page without its
  data payload.\<close>

definition world_app_page :: World where
  "world_app_page =
     world0\<lparr>files := [''d/app/k.html'' \<mapsto> (Raw ''<p>hi</p>'', 500),
                       ''d/app/k.rsc'' \<mapsto> (Raw ''0:hi'', 500)]\<rparr>"

definition app_page_entry :: CacheHandlerValue where
  "app_page_entry =
     \<lparr>lastModified = 500,
      val = Some (CachedAppPage (Raw ''<p>hi</p>'') (Some (Raw ''0:hi'')) None None None)\<rparr>"

definition world_pages_html :: World where
  "world_pages_html = world0\<lparr>files := [''d/pages/k.html'' \<mapsto> (Raw ''<p>hi</p>'', 500)]\<rparr>"

text \<open>Fallback contexts for \<^verbatim>\<open>set\<close> and \<^verbatim>\<open>get\<close>.\<close>

definition set_ctx_fallback :: SetCtx where
  "set_ctx_fallback = \<lparr>set_tags = None, set_isRoutePPREnabled = False, set_isFallback = True\<rparr>"

definition ctx_fallback :: "IncrementalCacheKind \<Rightarrow> GetCtx" where
  "ctx_fallback k = (ctx0 k)\<lparr>isFallback := True\<rparr>"

section \<open>Properties\<close>

subsection \<open>Basic facts about results and the capability\<close>

lemma ret_apply [simp]: "ret v s = (Inr v, s)" by (simp add: ret_def)
lemma throw_apply [simp]: "throw e s = (Inl e, s)" by (simp add: throw_def)

lemma bind_Inr:
  "(bind m f s = (Inr v, s')) = (\<exists>x s1. m s = (Inr x, s1) \<and> f x s1 = (Inr v, s'))"
  by (auto simp: bind_def split: prod.splits sum.splits)

lemma try_catch_Inr:
  "(try_catch m h s = (Inr v, s')) =
     (m s = (Inr v, s') \<or> (\<exists>e s1. m s = (Inl e, s1) \<and> h e s1 = (Inr v, s')))"
  by (auto simp: try_catch_def split: prod.splits sum.splits)

lemma fs_readFile_Inr:
  "(fs_readFile this p s = (Inr c, s')) =
     (has_fs this \<and> \<not> faults s (ReadFile p) \<and> (\<exists>t. files s p = Some (c, t))
      \<and> s' = s\<lparr>trace := trace s @ [FsCall (ReadFile p)]\<rparr>)"
  by (auto simp: fs_readFile_def Let_def split: option.splits)

lemma fs_stat_Inr:
  "(fs_stat this p s = (Inr t, s')) =
     (has_fs this \<and> \<not> faults s (Stat p) \<and> (\<exists>c. files s p = Some (c, t))
      \<and> s' = s\<lparr>trace := trace s @ [FsCall (Stat p)]\<rparr>)"
  by (auto simp: fs_stat_def Let_def split: option.splits)

lemma fs_writeFile_Inr:
  "(fs_writeFile this p c s = (Inr u, s')) =
     (has_fs this \<and> \<not> faults s (WriteFile p)
      \<and> s' = s\<lparr>trace := trace s @ [FsCall (WriteFile p)],
               files := (files s)(p \<mapsto> (c, now s))\<rparr>)"
  by (auto simp: fs_writeFile_def Let_def)

lemma fs_mkdir_Inr:
  "(fs_mkdir this p s = (Inr u, s')) =
     (has_fs this \<and> \<not> faults s (Mkdir p)
      \<and> s' = s\<lparr>trace := trace s @ [FsCall (Mkdir p)]\<rparr>)"
  by (auto simp: fs_mkdir_def Let_def)

lemma JSON_parse_meta_Inr: "(JSON_parse_meta c s = (Inr m, s')) = (c = MetaJson m \<and> s' = s)"
  by (auto simp: JSON_parse_meta_def split: content.splits)

lemma JSON_parse_data_Inr: "(JSON_parse_data c s = (Inr m, s')) = (c = DataJson m \<and> s' = s)"
  by (auto simp: JSON_parse_data_def split: content.splits)

lemma JSON_parse_fetch_Inr: "(JSON_parse_fetch c s = (Inr m, s')) = (c = FetchJson m \<and> s' = s)"
  by (auto simp: JSON_parse_fetch_def split: content.splits)

lemma map_of_filter_key: "map_of (filter (\<lambda>p. fst p \<noteq> key) xs) key = None"
  by (induction xs) auto

lemma lru_max_set [simp]: "lru_max (lru_set key e n c) = lru_max c"
  by (simp add: lru_set_def Let_def)

lemma lru_get_set:
  "fst (lru_get key (lru_set key e n c)) = (if int n \<le> lru_max c then Some e else None)"
  by (simp add: lru_get_def lru_set_def Let_def map_of_filter_key)

lemma mem_set_cases:
  "mem_set E key e s =
     (case lru_length E (val e) of
        Inr n \<Rightarrow> (Inr (), mem_store key e n s)
      | Inl err \<Rightarrow> (if memoryCache s = None then (Inr (), s) else (Inl err, s)))"
  by (simp add: mem_set_def mem_store_def split: option.split sum.split)

lemma mem_store_frame [simp]:
  "trace (mem_store key e n s) = trace s"
  "files (mem_store key e n s) = files s"
  "faults (mem_store key e n s) = faults s"
  "now (mem_store key e n s) = now s"
  "tagsManifest (mem_store key e n s) = tagsManifest s"
  by (simp_all add: mem_store_def split: option.split)

lemma mem_store_memory:
  "memoryCache (mem_store key e n s) = map_option (lru_set key e n) (memoryCache s)"
  by (simp add: mem_store_def split: option.split)

lemma mem_get_store:
  "mem_get key (mem_store key e n s) =
     (case memoryCache s of
        None \<Rightarrow> None
      | Some c \<Rightarrow> if int n \<le> lru_max c then Some e else None)"
  by (simp add: mem_get_def mem_store_def lru_get_set split: option.split)

lemma mem_touch_miss: "mem_get key s = None \<Longrightarrow> mem_touch key s = s"
  by (auto simp: mem_get_def mem_touch_def lru_get_def split: option.splits)

lemma mem_touch_frame [simp]:
  "trace (mem_touch key s) = trace s"
  "files (mem_touch key s) = files s"
  "faults (mem_touch key s) = faults s"
  "now (mem_touch key s) = now s"
  "tagsManifest (mem_touch key s) = tagsManifest s"
  by (simp_all add: mem_touch_def split: option.split)

lemma seed_memory_cases:
  "seed_memory E key d s =
     (case lru_length E (val d) of
        Inr n \<Rightarrow> (Inr (Continue (Some d)), mem_store key d n s)
      | Inl err \<Rightarrow>
          (if memoryCache s = None then (Inr (Continue (Some d)), s) else (Inl err, s)))"
  by (cases "lru_length E (val d)"; cases "memoryCache s")
     (simp_all add: seed_memory_def bind_def mem_set_def mem_store_def ret_def)

lemmas Inr_simps = bind_Inr try_catch_Inr fs_readFile_Inr fs_stat_Inr fs_writeFile_Inr
  fs_mkdir_Inr JSON_parse_meta_Inr JSON_parse_data_Inr JSON_parse_fetch_Inr mem_set_cases
  seed_memory_cases lru_length_def

lemma try_read_meta_apply:
  "try_read_meta E this fp s =
     (if has_fs this
      then (Inr (meta_at s (replace_suffix ''.html'' (NEXT_META_SUFFIX E) fp)),
            s\<lparr>trace := trace s @
                 [FsCall (ReadFile (replace_suffix ''.html'' (NEXT_META_SUFFIX E) fp))]\<rparr>)
      else (Inr None, s))"
  by (auto simp: try_read_meta_def meta_at_def try_catch_def bind_def fs_readFile_def
       JSON_parse_meta_def Let_def split: option.splits content.splits)

subsection \<open>The manifest load\<close>

lemma loadTagsManifest_cases:
  "loadTagsManifest this s =
     (if load_skipped this s then (Inr (), s)
      else (Inr (),
        s\<lparr>trace := trace s @ [FsCall (ReadFile (the (tagsManifestPath this)))],
          tagsManifest := Some
            (if faults s (ReadFile (the (tagsManifestPath this))) then empty_manifest
             else (case files s (the (tagsManifestPath this)) of
                     Some (ManifestJson m, t) \<Rightarrow> m
                   | _ \<Rightarrow> empty_manifest))\<rparr>))"
  by (auto simp: try_catch_def bind_def fs_readFile_def loadTagsManifest_def load_skipped_def
        JSON_parse_manifest_def set_manifest_def Let_def
      split: option.splits content.splits prod.splits sum.splits)

lemma loadTagsManifestSync_eq: "loadTagsManifestSync this = loadTagsManifest this"
  by (simp add: loadTagsManifestSync_def loadTagsManifest_def)

lemma bind_loadTagsManifest:
  "bind (loadTagsManifest this) f s = f () (snd (loadTagsManifest this s))"
  by (simp add: bind_def loadTagsManifest_cases)

lemma loadTagsManifest_frame:
  "memoryCache (snd (loadTagsManifest this s)) = memoryCache s"
  "files (snd (loadTagsManifest this s)) = files s"
  "faults (snd (loadTagsManifest this s)) = faults s"
  "now (snd (loadTagsManifest this s)) = now s"
  by (simp_all add: loadTagsManifest_cases)

lemma loadTagsManifest_trace:
  "trace (snd (loadTagsManifest this s)) =
     (if load_skipped this s then trace s
      else trace s @ [FsCall (ReadFile (the (tagsManifestPath this)))])"
  by (simp add: loadTagsManifest_cases)

subsection \<open>The staleness evaluation\<close>

lemma check_page_cases:
  "check_page E this data hs s =
     (case cache_tags E hs of
        None \<Rightarrow> (Inr (Some data), s)
      | Some l \<Rightarrow>
          if l = [] then (Inr (Some data), s)
          else (if list_ex (tag_stale (tagsManifest (snd (loadTagsManifest this s))) data (now s)) l
                then Inr None else Inr (Some data), snd (loadTagsManifest this s)))"
  by (simp add: check_page_def bind_loadTagsManifest loadTagsManifest_frame split: option.split)

lemma check_fetch_cases:
  "check_fetch this ctx data s =
     (if list_ex (\<lambda>tag. tag \<in> set (revalidatedTags this)
                        \<or> tag_stale (tagsManifest (snd (loadTagsManifest this s))) data (now s) tag)
           ((case tags ctx of None \<Rightarrow> [] | Some l \<Rightarrow> l)
            @ (case softTags ctx of None \<Rightarrow> [] | Some l \<Rightarrow> l))
      then Inr None else Inr (Some data), snd (loadTagsManifest this s))"
  by (simp add: check_fetch_def bind_loadTagsManifest loadTagsManifest_frame Let_def)

lemma check_stale_state:
  "snd (check_stale E this ctx d s) = s \<or>
   snd (check_stale E this ctx d s) = snd (loadTagsManifest this s)"
  by (simp add: check_stale_def check_page_cases check_fetch_cases
      split: option.split IncrementalCacheValue.split)


lemma check_stale_memory: "memoryCache (snd (check_stale E this ctx d s)) = memoryCache s"
  using check_stale_state[of E this ctx d s] by (auto simp: loadTagsManifest_frame)

lemma check_stale_files: "files (snd (check_stale E this ctx d s)) = files s"
  using check_stale_state[of E this ctx d s] by (auto simp: loadTagsManifest_frame)

lemma check_stale_trace: "set (trace s) \<subseteq> set (trace (snd (check_stale E this ctx d s)))"
  using check_stale_state[of E this ctx d s] by (auto simp: loadTagsManifest_trace)

lemma check_stale_tagged:
  assumes "tagged E ctx data t"
    and "tagsManifest (snd (loadTagsManifest this s1)) = Some m"
    and "map_of (items m) t = Some r" and "r \<noteq> 0"
    and "lastModified data \<noteq> 0" and "lastModified data \<le> r"
  shows "fst (check_stale E this ctx (Some data) s1) = Inr None"
proof -
  have st: "tag_stale (tagsManifest (snd (loadTagsManifest this s1))) data (now s1) t"
    using assms by (simp add: tag_stale_def)
  show ?thesis
    using assms(1) st
    by (auto simp: check_stale_def tagged_def check_page_cases check_fetch_cases list_ex_iff
         split: option.splits IncrementalCacheValue.splits)
qed

subsection \<open>The two halves of get\<close>

lemma get_after_candidate:
  "get_candidate E this key ctx s = (Inr (Continue d), s1) \<Longrightarrow>
     get E this key ctx s = check_stale E this ctx d s1"
  by (simp add: get_def bind_def)


lemma get_candidate_Continue:
  assumes "get_candidate E this key ctx s = (Inr (Continue (Some data)), s1)"
    and "mem_get key s = None"
  shows "NEXT_RUNTIME E \<noteq> Some ''edge'' \<and> kind ctx \<noteq> APP_ROUTE
         \<and> read_disk E this key ctx s = (Inr (Continue (Some data)), s1)"
  using assms
  by (auto simp: get_candidate_def mem_touch_miss Let_def try_catch_Inr bind_Inr
      split: if_splits)

lemma read_disk_seeds:
  assumes "read_disk E this key ctx s = (Inr (Continue (Some data)), s1)"
    and "memoryCache s = Some c"
    and "lru_length E (val data) = Inr n"
  shows "mem_get key s1 = (if int n \<le> lru_max c then Some data else None)"
  using assms
  by (cases "kind ctx")
     (auto simp: read_disk_def read_fetch_def read_app_page_def read_pages_def set_cache_def
          Inr_simps try_read_meta_apply mem_get_store mem_store_memory Let_def
        split: if_splits sum.splits)

subsection \<open>Evaluation on the example inputs\<close>

lemmas example_defs = E0_def this0_def world0_def ctx0_def page_entry_def world_page_def
  new_LRUCache_def fetch_value_def world_fetch_def ctx_fetch_def world_route_def route_entry_def
  empty_manifest_def fs_ctx_def world_behind_def world_readonly_def world_app_page_def
  app_page_entry_def world_pages_html_def set_ctx_fallback_def ctx_fallback_def

lemmas eval_defs = get_def get_candidate_def read_disk_def read_fetch_def read_app_page_def
  read_pages_def read_app_route_def try_read_meta_def seed_memory_def set_cache_def set_page_def
  write_payload_def check_stale_def check_page_def check_fetch_def cache_tags_def tag_stale_def
  tags_every_def loadTagsManifest_def load_skipped_def mem_get_def mem_set_def mem_touch_def
  mem_store_def lru_get_def lru_set_def lru_length_def content_length_def
  fs_readFile_def fs_stat_def fs_writeFile_def fs_mkdir_def
  JSON_parse_meta_def JSON_parse_data_def JSON_parse_fetch_def JSON_parse_manifest_def
  set_manifest_def bind_def try_catch_def emit_def path_dirname_def replace_suffix_def
  Let_def

text \<open>The instance of the examples is the one the constructor makes.\<close>

lemma constructor_this0: "fst (constructor (fs_ctx m) world0) = this0"
  by (simp add: constructor_def Let_def example_defs)

lemma constructor_constructed: "constructed (fst (constructor ctx s))"
  by (simp add: constructor_def constructed_def Let_def)

subsection \<open>C1: a revalidated tag makes the candidate stale\<close>

text \<open>
  Claim C1, as the code has it. A candidate that reaches the staleness evaluation of
  \<^verbatim>\<open>get\<close> (from the memory tier or from the disk) and that is checked against the tag
  \<open>t\<close> (a page-like value whose cache-tags header lists \<open>t\<close>, or a fetch value with \<open>t\<close>
  among the request tags and the soft tags) is not returned when the manifest, as loaded
  at that point, records for \<open>t\<close> a \<^verbatim>\<open>revalidatedAt\<close> at or after the candidate's
  \<^verbatim>\<open>lastModified\<close>, equality included, and neither timestamp is \<open>0\<close>: \<^verbatim>\<open>get\<close> returns
  \<^verbatim>\<open>null\<close>.
\<close>

theorem get_stale_by_tag:
  assumes "get_candidate E this key ctx s = (Inr (Continue (Some data)), s1)"
    and "tagged E ctx data t"
    and "tagsManifest (snd (loadTagsManifest this s1)) = Some m"
    and "map_of (items m) t = Some r" and "r \<noteq> 0"
    and "lastModified data \<noteq> 0" and "lastModified data \<le> r"
  shows "fst (get E this key ctx s) = Inr None"
  using get_after_candidate[OF assms(1)] check_stale_tagged[OF assms(2-7)]
  by simp

text \<open>The boundary of the spec's scenario: the manifest records \<^verbatim>\<open>a\<close> at \<open>100\<close>, the entry
  was written at \<open>100\<close>.\<close>

theorem get_stale_by_tag_witness:
  "fst (get E0 this0 ''k'' (ctx0 PAGES) (world_page 100 100)) = Inr None"
proof -
  have c: "get_candidate E0 this0 ''k'' (ctx0 PAGES) (world_page 100 100)
           = (Inr (Continue (Some (page_entry 100))), world_page 100 100)"
    by (simp add: get_candidate_def mem_get_def mem_touch_def lru_get_def Let_def
        example_defs)
  have t: "tagged E0 (ctx0 PAGES) (page_entry 100) ''a''"
    by (simp add: tagged_def cache_tags_def example_defs)
  have m: "tagsManifest (snd (loadTagsManifest this0 (world_page 100 100)))
            = Some \<lparr>version = 1, items = [(''a'', 100)]\<rparr>"
    by (simp add: loadTagsManifest_def load_skipped_def example_defs)
  show ?thesis
    using get_stale_by_tag[OF c t m, of 100] by (simp add: example_defs)
qed

text \<open>The claim without the two guards fails: an entry whose \<^verbatim>\<open>lastModified\<close> is \<open>0\<close> (a
  file stamped with the epoch) is compared with the clock, here \<open>1000\<close>, and is returned
  although the manifest records its tag revalidated at \<open>100\<close>.\<close>

theorem get_stale_by_tag_counterexample:
  "get_candidate E0 this0 ''k'' (ctx0 PAGES) (world_page 0 100)
      = (Inr (Continue (Some (page_entry 0))), world_page 0 100)
   \<and> tagged E0 (ctx0 PAGES) (page_entry 0) ''a''
   \<and> tagsManifest (world_page 0 100) = Some \<lparr>version = 1, items = [(''a'', 100)]\<rparr>
   \<and> lastModified (page_entry 0) \<le> 100
   \<and> fst (get E0 this0 ''k'' (ctx0 PAGES) (world_page 0 100)) = Inr (Some (page_entry 0))"
  by (simp add: get_def bind_def get_candidate_def mem_get_def mem_touch_def lru_get_def
      check_stale_def check_page_def
      cache_tags_def tagged_def tag_stale_def loadTagsManifest_def load_skipped_def Let_def
      example_defs)

subsection \<open>C2: revalidateTag merges into the manifest it has in memory\<close>

lemma revalidateTag_reads_nothing:
  assumes "tagsManifest s \<noteq> None"
  shows "file_reads (trace (snd (revalidateTag this arg s))) = file_reads (trace s)"
  using assms
  by (auto simp: revalidateTag_def bind_loadTagsManifest loadTagsManifest_cases load_skipped_def
        try_catch_def bind_def emit_def fs_mkdir_def fs_writeFile_def file_reads_def Let_def
      split: option.splits)

text \<open>
  Claim C2 says that \<^verbatim>\<open>revalidateTag\<close> reads the manifest file again before it merges.
  The code calls \<^verbatim>\<open>loadTagsManifest\<close>, which returns at once when a manifest is in memory
  (and the constructor has loaded one), so no file is read. Evaluated on a process whose
  manifest in memory is behind the file: the trace has no read, and the file written
  back has the tag \<^verbatim>\<open>c\<close> merged into the copy in memory, so the tag \<^verbatim>\<open>b\<close> that another
  process wrote is gone.
\<close>

theorem revalidateTag_merges_cached_manifest:
  "trace (snd (revalidateTag this0 (ManyTags [''c'']) world_behind))
     = [FsCall (Mkdir ''d/../cache/fetch-cache''),
        FsCall (WriteFile ''d/../cache/fetch-cache/tags-manifest.json'')]
   \<and> files (snd (revalidateTag this0 (ManyTags [''c'']) world_behind))
        ''d/../cache/fetch-cache/tags-manifest.json''
     = Some (ManifestJson \<lparr>version = 1, items = [(''a'', 1), (''c'', 1000)]\<rparr>, 1000)"
  by (simp add: revalidateTag_def normalize_tags_def eval_defs example_defs)

subsection \<open>C3: the write-back of a fetch entry stores the requested tags\<close>

text \<open>
  Claim C3, as the code has it. When \<^verbatim>\<open>get\<close> misses the memory tier, reads a fetch entry
  from the disk and the stored tag list does not contain every requested tag, it calls
  \<^verbatim>\<open>set\<close> with the requested tags; \<^verbatim>\<open>set\<close> writes \<^verbatim>\<open>{...data, tags: ctx.tags}\<close>, so (when
  the directory can be made and the file written) the tags stored for the key afterwards
  are exactly the requested tags. They contain every requested tag; a stored tag that
  was not requested again is not kept.
\<close>

theorem get_fetch_write_back:
  assumes "mem_get key s = None" and "NEXT_RUNTIME E \<noteq> Some ''edge''" and "kind ctx = FETCH"
    and "flushToDisk this" and "has_fs this"
    and "files s (getFilePath this key FETCH) = Some (FetchJson v, mt)"
    and "\<not> faults s (ReadFile (getFilePath this key FETCH))"
    and "\<not> faults s (Stat (getFilePath this key FETCH))"
    and "\<not> faults s (Mkdir (path_dirname (getFilePath this key FETCH)))"
    and "\<not> faults s (WriteFile (getFilePath this key FETCH))"
    and "\<not> tags_every (tags ctx) (fv_tags v)"
  shows "files (snd (get E this key ctx s)) (getFilePath this key FETCH)
           = Some (FetchJson (v\<lparr>fv_tags := tags ctx\<rparr>), now s)
         \<and> FsCall (WriteFile (getFilePath this key FETCH))
             \<in> set (trace (snd (get E this key ctx s)))"
proof -
  let ?p = "getFilePath this key FETCH"
  let ?d = "\<lparr>lastModified = mt, val = Some (CachedFetch v)\<rparr>"
  have rd: "\<exists>s1. read_disk E this key ctx s = (Inr (Continue (Some ?d)), s1)
      \<and> files s1 ?p = Some (FetchJson (v\<lparr>fv_tags := tags ctx\<rparr>), now s)
      \<and> FsCall (WriteFile ?p) \<in> set (trace s1)"
    using assms(3-11)
    by (simp add: read_disk_def read_fetch_def bind_def
        fs_readFile_def fs_stat_def fs_mkdir_def fs_writeFile_def JSON_parse_fetch_def
        set_cache_def mem_set_cases seed_memory_cases lru_length_def Let_def
        del: getFilePath.simps)
  obtain s1 where c: "get_candidate E this key ctx s = (Inr (Continue (Some ?d)), s1)"
    and f: "files s1 ?p = Some (FetchJson (v\<lparr>fv_tags := tags ctx\<rparr>), now s)"
    and t: "FsCall (WriteFile ?p) \<in> set (trace s1)"
    using assms(1-3) rd
    by (auto simp: get_candidate_def mem_touch_miss Let_def try_catch_def
        simp del: getFilePath.simps)
  have g: "get E this key ctx s = check_stale E this ctx (Some ?d) s1"
    using get_after_candidate[OF c] .
  show ?thesis
    using f t check_stale_trace[of s1 E this ctx "Some ?d"] unfolding g
    by (auto simp: check_stale_files simp del: getFilePath.simps)
qed

text \<open>Nothing stored, the tag \<^verbatim>\<open>a\<close> requested: \<^verbatim>\<open>a\<close> is stored afterwards.\<close>

theorem get_fetch_write_back_witness:
  "files (snd (get E0 this0 ''k'' (ctx_fetch [''a'']) (world_fetch None)))
     ''d/../cache/fetch-cache/k''
   = Some (FetchJson (fetch_value (Some [''a''])), 1000)"
  using get_fetch_write_back[of "''k''" "world_fetch None" E0 "ctx_fetch [''a'']" this0
          "fetch_value None" 500]
  by (simp add: mem_get_def lru_get_def tags_every_def example_defs)

text \<open>The tags \<^verbatim>\<open>a\<close> and \<^verbatim>\<open>c\<close> stored, \<^verbatim>\<open>a\<close> and \<^verbatim>\<open>b\<close> requested: the write-back stores
  \<^verbatim>\<open>a\<close> and \<^verbatim>\<open>b\<close>, and the stored tag \<^verbatim>\<open>c\<close> is lost, so the stored tags are not the union.\<close>

theorem get_fetch_write_back_counterexample:
  "files (world_fetch (Some [''a'', ''c''])) ''d/../cache/fetch-cache/k''
     = Some (FetchJson (fetch_value (Some [''a'', ''c''])), 500)
   \<and> \<not> tags_every (tags (ctx_fetch [''a'', ''b''])) (Some [''a'', ''c''])
   \<and> files (snd (get E0 this0 ''k'' (ctx_fetch [''a'', ''b'']) (world_fetch (Some [''a'', ''c'']))))
       ''d/../cache/fetch-cache/k''
     = Some (FetchJson (fetch_value (Some [''a'', ''b''])), 1000)
   \<and> ''c'' \<notin> set [''a'', ''b'']"
  by (simp add: eval_defs example_defs)

subsection \<open>C4: a disk read seeds the memory tier, except for a route response\<close>

text \<open>The entry read from the disk is in the memory tier after the read exactly when its
  cost, as the size estimator of the tier computes it, is within the bound of the tier.\<close>

lemma get_candidate_seeds:
  assumes "get_candidate E this key ctx s = (Inr (Continue (Some data)), s1)"
    and "mem_get key s = None" and "memoryCache s = Some c"
    and "lru_length E (val data) = Inr n"
  shows "mem_get key s1 = (if int n \<le> lru_max c then Some data else None)"
proof -
  have rd: "read_disk E this key ctx s = (Inr (Continue (Some data)), s1)"
    using get_candidate_Continue[OF assms(1,2)] by simp
  show ?thesis using read_disk_seeds[OF rd assms(3,4)] .
qed

text \<open>A fetch entry of cost \<open>2\<close> read with a memory tier of bound \<open>1\<close>: the entry is
  returned and the memory tier stays empty.\<close>

lemma get_oversized_not_seeded:
  "fst (get E0 this0 ''k'' (ctx_fetch [''a''])
          ((world_fetch (Some [''a'']))\<lparr>memoryCache := Some (new_LRUCache 1)\<rparr>))
     = Inr (Some \<lparr>lastModified = 500, val = Some (CachedFetch (fetch_value (Some [''a''])))\<rparr>)
   \<and> mem_get ''k'' (snd (get E0 this0 ''k'' (ctx_fetch [''a''])
          ((world_fetch (Some [''a'']))\<lparr>memoryCache := Some (new_LRUCache 1)\<rparr>))) = None"
  by (simp add: eval_defs example_defs)

text \<open>
  Claim C4, as the code has it. When a memory tier is configured and \<^verbatim>\<open>get\<close> misses it,
  a read of the disk that goes on to the staleness evaluation (the kinds \<^verbatim>\<open>FETCH\<close>,
  \<^verbatim>\<open>APP_PAGE\<close> and \<^verbatim>\<open>PAGES\<close>, every file read and the tag write-back of a fetch entry, if
  one is made, having succeeded; the kind is never \<^verbatim>\<open>APP_ROUTE\<close> there) and whose entry
  has a cost \<open>n\<close>, as the size estimator of the tier computes it, that is at most the bound
  of the tier, has put the entry into the memory tier before the staleness evaluation
  starts, and the entry is still there when \<^verbatim>\<open>get\<close> returns. An entry whose cost exceeds
  the bound is refused by the tier (\<open>get_candidate_seeds\<close>).
\<close>

theorem get_seeds_memory:
  assumes "get_candidate E this key ctx s = (Inr (Continue (Some data)), s1)"
    and "mem_get key s = None" and "memoryCache s = Some c"
    and "lru_length E (val data) = Inr n" and "int n \<le> lru_max c"
  shows "kind ctx \<noteq> APP_ROUTE \<and> mem_get key s1 = Some data
         \<and> mem_get key (snd (get E this key ctx s)) = Some data"
proof -
  have k: "kind ctx \<noteq> APP_ROUTE"
    using get_candidate_Continue[OF assms(1,2)] by simp
  have m1: "mem_get key s1 = Some data"
    using get_candidate_seeds[OF assms(1-4)] assms(5) by simp
  have "memoryCache (snd (get E this key ctx s)) = memoryCache s1"
    using get_after_candidate[OF assms(1)] by (simp add: check_stale_memory)
  then show ?thesis using m1 k by (simp add: mem_get_def)
qed

text \<open>A fetch entry whose data \<^verbatim>\<open>{}\<close> costs \<open>2\<close> is read into a memory tier of bound \<open>50\<close>.\<close>

theorem get_seeds_memory_witness:
  "mem_get ''k'' (snd (get E0 this0 ''k'' (ctx_fetch [''a'']) (world_fetch (Some [''a'']))))
   = Some \<lparr>lastModified = 500, val = Some (CachedFetch (fetch_value (Some [''a''])))\<rparr>"
proof -
  have c: "get_candidate E0 this0 ''k'' (ctx_fetch [''a'']) (world_fetch (Some [''a'']))
      = (Inr (Continue (Some \<lparr>lastModified = 500,
                              val = Some (CachedFetch (fetch_value (Some [''a''])))\<rparr>)),
         snd (get_candidate E0 this0 ''k'' (ctx_fetch [''a'']) (world_fetch (Some [''a'']))))"
    by (simp add: eval_defs example_defs)
  have m: "mem_get ''k'' (world_fetch (Some [''a''])) = None"
    and k: "memoryCache (world_fetch (Some [''a''])) = Some (new_LRUCache 50)"
    by (simp_all add: mem_get_def lru_get_def example_defs)
  have l: "lru_length E0 (val \<lparr>lastModified = 500,
              val = Some (CachedFetch (fetch_value (Some [''a''])))\<rparr>) = Inr 2"
    by (simp add: lru_length_def example_defs)
  have b: "int 2 \<le> lru_max (new_LRUCache 50)"
    by (simp add: example_defs)
  show ?thesis using get_seeds_memory[OF c m k l b] by simp
qed

text \<open>A route response is read from the disk and returned, and the configured memory tier
  still has no entry for the key.\<close>

theorem get_seeds_memory_counterexample:
  "memoryCache world_route = Some (new_LRUCache 50)
   \<and> mem_get ''k'' world_route = None
   \<and> fst (get E0 this0 ''k'' (ctx0 APP_ROUTE) world_route) = Inr (Some route_entry)
   \<and> mem_get ''k'' (snd (get E0 this0 ''k'' (ctx0 APP_ROUTE) world_route)) = None"
  by (simp add: eval_defs example_defs)

subsection \<open>C5: the first configuration of the memory tier wins\<close>

lemma constructor_memory:
  "memoryCache (snd (constructor ctx s)) = memoryCache (init_memory ctx s)"
  by (simp add: constructor_def Let_def loadTagsManifestSync_eq loadTagsManifest_frame)

text \<open>
  Claim C5. A constructor call that finds no memory cache and is given a size limit
  creates the cache with that limit; a constructor call that finds a memory cache,
  whatever its own configuration (a size limit or none), leaves it as it is: no second
  cache is created and the existing one is not removed.
\<close>

theorem constructor_first_configuration_wins:
  "(memoryCache s = None \<and> ctx_maxMemoryCacheSize ctx = Some m \<and> m \<noteq> 0
      \<longrightarrow> memoryCache (snd (constructor ctx s)) = Some (new_LRUCache m))
   \<and> (memoryCache s = Some c \<longrightarrow> memoryCache (snd (constructor ctx s)) = Some c)"
  by (auto simp: constructor_memory init_memory_def split: option.splits)

text \<open>The first caller asks for a bound of \<open>50\<close>; a later caller with no memory tier and a
  later caller with a bound of \<open>7\<close> both find the cache of bound \<open>50\<close> and keep it.\<close>

theorem constructor_first_configuration_wins_witness:
  "memoryCache (snd (constructor (fs_ctx (Some 50)) (world0\<lparr>memoryCache := None\<rparr>)))
     = Some (new_LRUCache 50)
   \<and> memoryCache (snd (constructor (fs_ctx None) world0)) = Some (new_LRUCache 50)
   \<and> memoryCache (snd (constructor (fs_ctx (Some 7)) world0)) = Some (new_LRUCache 50)"
  using constructor_first_configuration_wins[of "world0\<lparr>memoryCache := None\<rparr>" "fs_ctx (Some 50)" 50]
    constructor_first_configuration_wins[of world0 "fs_ctx None" _ "new_LRUCache 50"]
    constructor_first_configuration_wins[of world0 "fs_ctx (Some 7)" _ "new_LRUCache 50"]
  by (simp add: example_defs)

subsection \<open>C6: loading the manifest is idempotent and never fails\<close>

lemma load_skipped_after: "load_skipped this (snd (loadTagsManifest this s))"
  by (simp add: loadTagsManifest_cases load_skipped_def)

lemma loadTagsManifest_twice:
  "loadTagsManifest this (snd (loadTagsManifest this s)) = (Inr (), snd (loadTagsManifest this s))"
  using load_skipped_after[of this s] by (simp add: loadTagsManifest_def)

text \<open>
  Claim C6. With a manifest in memory, \<^verbatim>\<open>loadTagsManifest\<close> and \<^verbatim>\<open>loadTagsManifestSync\<close>
  return at once: the state, its trace of file reads included, is unchanged. A second
  call right after a first one changes nothing, and the two calls together read at most
  one file. Neither function ever throws. When the manifest has to be loaded and the
  file cannot be read or parsed, the manifest becomes \<^verbatim>\<open>{ version: 1, items: {} }\<close>.
\<close>

theorem loadTagsManifest_idempotent:
  "(tagsManifest s \<noteq> None \<longrightarrow>
      loadTagsManifest this s = (Inr (), s) \<and> loadTagsManifestSync this s = (Inr (), s))
   \<and> loadTagsManifest this (snd (loadTagsManifest this s))
       = (Inr (), snd (loadTagsManifest this s))
   \<and> loadTagsManifestSync this (snd (loadTagsManifestSync this s))
       = (Inr (), snd (loadTagsManifestSync this s))
   \<and> file_reads (trace (snd (loadTagsManifest this (snd (loadTagsManifest this s)))))
       \<le> file_reads (trace s) + 1
   \<and> fst (loadTagsManifest this s) = Inr () \<and> fst (loadTagsManifestSync this s) = Inr ()
   \<and> (tagsManifestPath this = Some p \<and> p \<noteq> [] \<and> has_fs this \<and> tagsManifest s = None
        \<and> manifest_unreadable s p \<longrightarrow>
        tagsManifest (snd (loadTagsManifest this s)) = Some empty_manifest
        \<and> tagsManifest (snd (loadTagsManifestSync this s)) = Some empty_manifest)"
proof -
  have a: "tagsManifest s \<noteq> None \<longrightarrow> loadTagsManifest this s = (Inr (), s)"
    by (simp add: loadTagsManifest_def load_skipped_def)
  have r: "file_reads (trace (snd (loadTagsManifest this (snd (loadTagsManifest this s)))))
       \<le> file_reads (trace s) + 1"
    by (simp add: loadTagsManifest_twice loadTagsManifest_trace file_reads_def)
  have u: "tagsManifestPath this = Some p \<and> p \<noteq> [] \<and> has_fs this \<and> tagsManifest s = None
        \<and> manifest_unreadable s p \<longrightarrow>
        tagsManifest (snd (loadTagsManifest this s)) = Some empty_manifest"
    by (auto simp: loadTagsManifest_cases load_skipped_def manifest_unreadable_def
        split: if_splits option.splits content.splits)
  have i: "fst (loadTagsManifest this s) = Inr ()"
    by (simp add: loadTagsManifest_cases)
  show ?thesis
    unfolding loadTagsManifestSync_eq
    using a r u i loadTagsManifest_twice[of this s] by blast
qed

text \<open>A loaded manifest is left alone; a missing file gives the empty manifest, and two
  calls in sequence read the file once.\<close>

theorem loadTagsManifest_idempotent_witness:
  "loadTagsManifest this0 world_behind = (Inr (), world_behind)
   \<and> tagsManifest (snd (loadTagsManifest this0 world0)) = Some empty_manifest
   \<and> file_reads (trace (snd (loadTagsManifest this0 (snd (loadTagsManifest this0 world0))))) \<le> 1"
proof -
  let ?p = "''d/../cache/fetch-cache/tags-manifest.json''"
  have h1: "tagsManifest world_behind \<noteq> None"
    by (simp add: example_defs)
  have h2: "tagsManifestPath this0 = Some ?p \<and> ?p \<noteq> [] \<and> has_fs this0
      \<and> tagsManifest world0 = None \<and> manifest_unreadable world0 ?p"
    by (simp add: manifest_unreadable_def example_defs)
  have t: "file_reads (trace world0) = 0"
    by (simp add: file_reads_def example_defs)
  have a: "loadTagsManifest this0 world_behind = (Inr (), world_behind)"
    using loadTagsManifest_idempotent[of world_behind this0] h1 by blast
  have b: "tagsManifest (snd (loadTagsManifest this0 world0)) = Some empty_manifest"
    using loadTagsManifest_idempotent[of world0 this0 ?p] h2 by blast
  have c: "file_reads (trace (snd (loadTagsManifest this0 (snd (loadTagsManifest this0 world0)))))
      \<le> file_reads (trace world0) + 1"
    using loadTagsManifest_idempotent[of world0 this0] by blast
  show ?thesis using a b c t by simp
qed

subsection \<open>C7: a failed write of the manifest is logged and swallowed\<close>

lemma map_of_mark_tags:
  "map_of (items (mark_tags t l m)) = (\<lambda>k. if k \<in> set l then Some t else map_of (items m) k)"
  by (induction l arbitrary: m) (auto simp: update_conv')

text \<open>
  Claim C7. For a non-empty tag list, when the directory of the manifest cannot be made
  or the manifest file cannot be written, \<^verbatim>\<open>revalidateTag\<close> returns normally, the last
  event of its trace is the warning, no file has changed, and the manifest in memory
  records the current time for each of the tags.
\<close>

theorem revalidateTag_write_failure:
  assumes "normalize_tags arg \<noteq> []" and "has_fs this"
    and "tagsManifestPath this = Some p" and "p \<noteq> []"
    and "faults s (Mkdir (path_dirname p)) \<or> faults s (WriteFile p)"
  shows "fst (revalidateTag this arg s) = Inr ()
     \<and> (\<exists>pre. trace (snd (revalidateTag this arg s)) = trace s @ pre @ [ConsoleWarn])
     \<and> (\<exists>m. tagsManifest (snd (revalidateTag this arg s)) = Some m
            \<and> (\<forall>t \<in> set (normalize_tags arg). map_of (items m) t = Some (now s)))
     \<and> files (snd (revalidateTag this arg s)) = files s"
  using assms
  apply (simp add: revalidateTag_def Let_def bind_loadTagsManifest loadTagsManifest_cases
      load_skipped_def)
  apply (auto simp: try_catch_def bind_def emit_def fs_mkdir_def fs_writeFile_def Let_def
      map_of_mark_tags)
  done

theorem revalidateTag_write_failure_witness:
  "fst (revalidateTag this0 (OneTag ''a'') world_readonly) = Inr ()
   \<and> tagsManifest (snd (revalidateTag this0 (OneTag ''a'') world_readonly))
       = Some \<lparr>version = 1, items = [(''a'', 1000)]\<rparr>
   \<and> files (snd (revalidateTag this0 (OneTag ''a'') world_readonly)) = files world_readonly
   \<and> trace (snd (revalidateTag this0 (OneTag ''a'') world_readonly))
       = [FsCall (ReadFile ''d/../cache/fetch-cache/tags-manifest.json''),
          FsCall (Mkdir ''d/../cache/fetch-cache''),
          FsCall (WriteFile ''d/../cache/fetch-cache/tags-manifest.json''), ConsoleWarn]"
  using revalidateTag_write_failure[of "OneTag ''a''" this0
      "''d/../cache/fetch-cache/tags-manifest.json''" world_readonly]
  by (simp add: revalidateTag_def normalize_tags_def eval_defs example_defs)

subsection \<open>C8: a failed read is a miss, except for the sidecar of an app page\<close>











subsection \<open>C9: a fallback has no data payload\<close>

lemma getFilePath_append: "getFilePath this (key @ sfx) k = getFilePath this key k @ sfx"
  by (cases k) simp_all

lemma replace_suffix_append: "replace_suffix suf new (xs @ suf) = xs @ new"
  by (simp add: replace_suffix_def)

lemma manifest_path_other:
  "path_join [serverDistDir this, ''..'', ''cache'', ''fetch-cache'', ''tags-manifest.json'']
     \<noteq> getFilePath this x APP_PAGE"
  "path_join [serverDistDir this, ''..'', ''cache'', ''fetch-cache'', ''tags-manifest.json'']
     \<noteq> getFilePath this x PAGES"
  "getFilePath this x APP_PAGE
     \<noteq> path_join [serverDistDir this, ''..'', ''cache'', ''fetch-cache'', ''tags-manifest.json'']"
  "getFilePath this x PAGES
     \<noteq> path_join [serverDistDir this, ''..'', ''cache'', ''fetch-cache'', ''tags-manifest.json'']"
  by simp_all

lemma new_events_append: "trace s' = trace s @ evs \<Longrightarrow> new_events s s' = evs"
  by (simp add: new_events_def)

lemma set_page_trace:
  assumes "set_isFallback ctx"
  shows "\<exists>evs. trace (snd (set_page E this key ctx isApp html payload meta s)) = trace s @ evs
     \<and> set evs \<subseteq> {FsCall (Mkdir (path_dirname (html_path this key isApp))),
                    FsCall (WriteFile (html_path this key isApp))}
                 \<union> (case meta of
                       None \<Rightarrow> {}
                     | Some m \<Rightarrow>
                         {FsCall (WriteFile (replace_suffix ''.html'' (NEXT_META_SUFFIX E)
                                               (html_path this key isApp)))})
     \<and> (has_fs this \<and> \<not> faults s (Mkdir (path_dirname (html_path this key isApp)))
          \<longrightarrow> FsCall (WriteFile (html_path this key isApp)) \<in> set evs)"
  using assms
  by (auto simp: set_page_def html_path_def bind_def fs_mkdir_def fs_writeFile_def Let_def
       simp del: getFilePath.simps split: option.splits)

lemma set_cache_page_trace:
  assumes "set_isFallback sctx" and "kind_of data \<in> {K_APP_PAGE, K_PAGES}"
  shows "\<exists>evs. trace (snd (set_cache E this key (Some data) sctx s)) = trace s @ evs
     \<and> set evs \<subseteq> {FsCall (Mkdir (path_dirname (html_path this key (kind_of data = K_APP_PAGE)))),
                    FsCall (WriteFile (html_path this key (kind_of data = K_APP_PAGE)))}
                 \<union> (if kind_of data = K_APP_PAGE then {FsCall (WriteFile (meta_path E this key))}
                    else {})
     \<and> (flushToDisk this \<and> has_fs this
          \<and> \<not> faults s (Mkdir (path_dirname (html_path this key (kind_of data = K_APP_PAGE))))
          \<longrightarrow> FsCall (WriteFile (html_path this key (kind_of data = K_APP_PAGE))) \<in> set evs)"
proof (cases "flushToDisk this")
  case False
  then have "trace (snd (set_cache E this key (Some data) sctx s)) = trace s @ []"
    by (simp add: set_cache_def bind_def mem_set_cases split: sum.split)
  then show ?thesis using False by (intro exI[of _ "[]"]) simp
next
  case True
  define s0 where "s0 = snd (mem_set E key \<lparr>lastModified = now s, val = Some data\<rparr> s)"
  have f: "trace s0 = trace s" "faults s0 = faults s"
    by (simp_all add: s0_def mem_set_cases split: sum.split)
  have m: "meta_path E this key
      = replace_suffix ''.html'' (NEXT_META_SUFFIX E) (html_path this key True)"
    by (simp add: meta_path_def html_path_def del: getFilePath.simps)
  show ?thesis
  proof (cases data)
    case (CachedAppPage html rscData postponed hs st)
    have k: "(kind_of data = K_APP_PAGE) = True"
      using CachedAppPage by simp
    have e: "set_cache E this key (Some data) sctx s
        = set_page E this key sctx True html rscData
            (Some \<lparr>meta_headers = hs, meta_status = st, meta_postponed = postponed\<rparr>) s0"
      using True CachedAppPage by (simp add: set_cache_def bind_def mem_set_cases lru_length_def s0_def)
    show ?thesis
      using set_page_trace[OF assms(1), of E this key True html rscData
          "Some \<lparr>meta_headers = hs, meta_status = st, meta_postponed = postponed\<rparr>" s0]
      unfolding e k f m using True by simp
  next
    case (CachedPages html pageData hs st)
    have k: "(kind_of data = K_APP_PAGE) = False"
      using CachedPages by simp
    have e: "set_cache E this key (Some data) sctx s
        = set_page E this key sctx False html (Some (DataJson pageData)) None s0"
      using True CachedPages by (simp add: set_cache_def bind_def mem_set_cases lru_length_def s0_def)
    show ?thesis
      using set_page_trace[OF assms(1), of E this key False html "Some (DataJson pageData)"
          None s0]
      unfolding e k f using True by simp
  qed (use assms(2) in simp_all)
qed

lemma payload_not_html:
  assumes "suffixes_distinct E" and "p \<in> set (payload_paths E this key isApp)"
  shows "p \<noteq> html_path this key isApp"
  using assms
  by (auto simp: suffixes_distinct_def payload_paths_def html_path_def getFilePath_append
       simp del: getFilePath.simps split: if_splits)

lemma payload_not_meta:
  assumes "suffixes_distinct E" and "p \<in> set (payload_paths E this key True)"
  shows "p \<noteq> meta_path E this key"
  using assms
  by (auto simp: suffixes_distinct_def payload_paths_def meta_path_def getFilePath_append
       replace_suffix_append simp del: getFilePath.simps)

lemma payload_not_manifest:
  assumes "constructed this" and "tagsManifestPath this = Some mp"
    and "p \<in> set (payload_paths E this key isApp)"
  shows "p \<noteq> mp"
  using assms manifest_path_other[of this]
  by (auto simp: constructed_def payload_paths_def simp del: getFilePath.simps path_join.simps
      split: if_splits)

lemma meta_not_manifest:
  assumes "constructed this" and "tagsManifestPath this = Some mp"
  shows "meta_path E this key \<noteq> mp"
  using assms manifest_path_other(1)[of this "key @ NEXT_META_SUFFIX E"]
  by (simp add: constructed_def meta_path_def getFilePath_append replace_suffix_append
      del: getFilePath.simps path_join.simps)

lemma meta_not_html:
  assumes "suffixes_distinct E"
  shows "meta_path E this key \<noteq> html_path this key True"
  using assms
  by (auto simp: suffixes_distinct_def meta_path_def html_path_def getFilePath_append
       replace_suffix_append simp del: getFilePath.simps)

lemma get_candidate_fallback_trace:
  assumes "isFallback ctx" and "kind ctx = APP_PAGE \<or> kind ctx = PAGES"
  shows "\<exists>evs. trace (snd (get_candidate E this key ctx s)) = trace s @ evs
     \<and> set evs \<subseteq> {FsCall (ReadFile (html_path this key (kind ctx = APP_PAGE))),
                    FsCall (Stat (html_path this key (kind ctx = APP_PAGE)))}"
  using assms
  by (auto simp: get_candidate_def read_disk_def read_app_page_def read_pages_def
        seed_memory_cases html_path_def try_catch_def bind_def fs_readFile_def
        fs_stat_def Let_def
      simp del: getFilePath.simps split: option.splits sum.splits)

lemma check_stale_new_events:
  "\<exists>evs. trace (snd (check_stale E this ctx d s)) = trace s @ evs
     \<and> (evs = [] \<or> (\<exists>mp. tagsManifestPath this = Some mp \<and> evs = [FsCall (ReadFile mp)]))"
  using check_stale_state[of E this ctx d s]
  by (auto simp: loadTagsManifest_trace load_skipped_def)

lemma get_state:
  "snd (get E this key ctx s) =
     (case get_candidate E this key ctx s of
        (Inr (Continue d), s1) \<Rightarrow> snd (check_stale E this ctx d s1)
      | (r, s1) \<Rightarrow> s1)"
  by (simp add: get_def bind_def split: prod.split sum.split flow.split)

lemma get_fallback_trace:
  assumes "isFallback ctx" and "kind ctx = APP_PAGE \<or> kind ctx = PAGES"
  shows "\<exists>evs. trace (snd (get E this key ctx s)) = trace s @ evs
     \<and> set evs \<subseteq> {FsCall (ReadFile (html_path this key (kind ctx = APP_PAGE))),
                    FsCall (Stat (html_path this key (kind ctx = APP_PAGE)))}
                 \<union> (case tagsManifestPath this of None \<Rightarrow> {}
                     | Some mp \<Rightarrow> {FsCall (ReadFile mp)})"
proof -
  obtain r s1 where c: "get_candidate E this key ctx s = (r, s1)"
    by (cases "get_candidate E this key ctx s") auto
  obtain evs where e: "trace s1 = trace s @ evs"
    "set evs \<subseteq> {FsCall (ReadFile (html_path this key (kind ctx = APP_PAGE))),
                 FsCall (Stat (html_path this key (kind ctx = APP_PAGE)))}"
    using get_candidate_fallback_trace[OF assms, of E this key s] c by auto
  show ?thesis
  proof (cases "\<exists>d. r = Inr (Continue d)")
    case True
    then obtain d where d: "r = Inr (Continue d)" by blast
    obtain evs' where e': "trace (snd (check_stale E this ctx d s1)) = trace s1 @ evs'"
      "evs' = [] \<or> (\<exists>mp. tagsManifestPath this = Some mp \<and> evs' = [FsCall (ReadFile mp)])"
      using check_stale_new_events[of E this ctx d s1] by blast
    have "trace (snd (get E this key ctx s)) = trace s @ (evs @ evs')"
      using c d e(1) e'(1) by (simp add: get_state)
    moreover have "set (evs @ evs') \<subseteq>
        {FsCall (ReadFile (html_path this key (kind ctx = APP_PAGE))),
         FsCall (Stat (html_path this key (kind ctx = APP_PAGE)))}
        \<union> (case tagsManifestPath this of None \<Rightarrow> {} | Some mp \<Rightarrow> {FsCall (ReadFile mp)})"
      using e(2) e'(2) by auto
    ultimately show ?thesis by blast
  next
    case False
    then have "snd (get E this key ctx s) = s1"
      using c by (auto simp: get_state split: sum.split flow.split)
    then show ?thesis using e by auto
  qed
qed

text \<open>
  Claim C9. Let the suffixes name different files. For \<^verbatim>\<open>set\<close> of a page-like value (an
  app page or a legacy page) with \<^verbatim>\<open>isFallback\<close>: no event of the call is a write of a
  data-payload file of the key, and with persistence enabled (and the directory made) the
  content file is written. For \<^verbatim>\<open>get\<close> of kind \<^verbatim>\<open>APP_PAGE\<close> or \<^verbatim>\<open>PAGES\<close> with
  \<^verbatim>\<open>isFallback\<close>, on an instance as the constructor leaves it: no event of the call is a
  read of a data-payload file of the key, nor, for an app page, of its metadata sidecar.
\<close>

theorem fallback_skips_payload:
  assumes "suffixes_distinct E"
  shows "(set_isFallback sctx \<and> kind_of data \<in> {K_APP_PAGE, K_PAGES} \<longrightarrow>
            (\<forall>p \<in> set (payload_paths E this key (kind_of data = K_APP_PAGE)).
               FsCall (WriteFile p)
                 \<notin> set (new_events s (snd (set_cache E this key (Some data) sctx s))))
            \<and> (flushToDisk this \<and> has_fs this
                 \<and> \<not> faults s (Mkdir (path_dirname
                                         (html_path this key (kind_of data = K_APP_PAGE))))
                \<longrightarrow> FsCall (WriteFile (html_path this key (kind_of data = K_APP_PAGE)))
                      \<in> set (new_events s (snd (set_cache E this key (Some data) sctx s)))))
       \<and> (isFallback ctx \<and> (kind ctx = APP_PAGE \<or> kind ctx = PAGES) \<and> constructed this \<longrightarrow>
            (\<forall>p \<in> set (payload_paths E this key (kind ctx = APP_PAGE)).
               FsCall (ReadFile p) \<notin> set (new_events s (snd (get E this key ctx s))))
            \<and> (kind ctx = APP_PAGE \<longrightarrow>
                  FsCall (ReadFile (meta_path E this key))
                    \<notin> set (new_events s (snd (get E this key ctx s)))))"
proof (intro conjI impI ballI)
  fix p
  assume h: "set_isFallback sctx \<and> kind_of data \<in> {K_APP_PAGE, K_PAGES}"
    and p: "p \<in> set (payload_paths E this key (kind_of data = K_APP_PAGE))"
  obtain evs where e: "trace (snd (set_cache E this key (Some data) sctx s)) = trace s @ evs"
    "set evs \<subseteq> {FsCall (Mkdir (path_dirname (html_path this key (kind_of data = K_APP_PAGE)))),
                 FsCall (WriteFile (html_path this key (kind_of data = K_APP_PAGE)))}
              \<union> (if kind_of data = K_APP_PAGE then {FsCall (WriteFile (meta_path E this key))}
                 else {})"
    using set_cache_page_trace[of sctx data E this key s] h by blast
  have "p \<noteq> html_path this key (kind_of data = K_APP_PAGE)"
    using payload_not_html[OF assms p] .
  moreover have "kind_of data = K_APP_PAGE \<Longrightarrow> p \<noteq> meta_path E this key"
    using payload_not_meta[OF assms, of p this key] p by simp
  ultimately have "FsCall (WriteFile p) \<notin> set evs"
    using e(2) by (auto split: if_splits)
  then show "FsCall (WriteFile p)
      \<notin> set (new_events s (snd (set_cache E this key (Some data) sctx s)))"
    using new_events_append[OF e(1)] by simp
next
  assume h: "set_isFallback sctx \<and> kind_of data \<in> {K_APP_PAGE, K_PAGES}"
    and w: "flushToDisk this \<and> has_fs this
       \<and> \<not> faults s (Mkdir (path_dirname (html_path this key (kind_of data = K_APP_PAGE))))"
  obtain evs where e: "trace (snd (set_cache E this key (Some data) sctx s)) = trace s @ evs"
    "FsCall (WriteFile (html_path this key (kind_of data = K_APP_PAGE))) \<in> set evs"
    using set_cache_page_trace[of sctx data E this key s] h w by blast
  show "FsCall (WriteFile (html_path this key (kind_of data = K_APP_PAGE)))
      \<in> set (new_events s (snd (set_cache E this key (Some data) sctx s)))"
    using new_events_append[OF e(1)] e(2) by simp
next
  fix p
  assume h: "isFallback ctx \<and> (kind ctx = APP_PAGE \<or> kind ctx = PAGES) \<and> constructed this"
    and p: "p \<in> set (payload_paths E this key (kind ctx = APP_PAGE))"
  obtain evs where e: "trace (snd (get E this key ctx s)) = trace s @ evs"
    "set evs \<subseteq> {FsCall (ReadFile (html_path this key (kind ctx = APP_PAGE))),
                 FsCall (Stat (html_path this key (kind ctx = APP_PAGE)))}
              \<union> (case tagsManifestPath this of None \<Rightarrow> {}
                  | Some mp \<Rightarrow> {FsCall (ReadFile mp)})"
    using get_fallback_trace[of ctx E this key s] h by blast
  have "p \<noteq> html_path this key (kind ctx = APP_PAGE)"
    using payload_not_html[OF assms p] .
  moreover have "\<And>mp. tagsManifestPath this = Some mp \<Longrightarrow> p \<noteq> mp"
    using payload_not_manifest[OF _ _ p] h by blast
  ultimately have "FsCall (ReadFile p) \<notin> set evs"
    using e(2) by (auto split: option.splits)
  then show "FsCall (ReadFile p) \<notin> set (new_events s (snd (get E this key ctx s)))"
    using new_events_append[OF e(1)] by simp
next
  assume h: "isFallback ctx \<and> (kind ctx = APP_PAGE \<or> kind ctx = PAGES) \<and> constructed this"
    and k: "kind ctx = APP_PAGE"
  obtain evs where e: "trace (snd (get E this key ctx s)) = trace s @ evs"
    "set evs \<subseteq> {FsCall (ReadFile (html_path this key (kind ctx = APP_PAGE))),
                 FsCall (Stat (html_path this key (kind ctx = APP_PAGE)))}
              \<union> (case tagsManifestPath this of None \<Rightarrow> {}
                  | Some mp \<Rightarrow> {FsCall (ReadFile mp)})"
    using get_fallback_trace[of ctx E this key s] h by blast
  have "meta_path E this key \<noteq> html_path this key (kind ctx = APP_PAGE)"
    using meta_not_html[OF assms] k by simp
  moreover have "\<And>mp. tagsManifestPath this = Some mp \<Longrightarrow> meta_path E this key \<noteq> mp"
    using meta_not_manifest h by blast
  ultimately have "FsCall (ReadFile (meta_path E this key)) \<notin> set evs"
    using e(2) by (auto split: option.splits)
  then show "FsCall (ReadFile (meta_path E this key))
      \<notin> set (new_events s (snd (get E this key ctx s)))"
    using new_events_append[OF e(1)] by simp
qed

text \<open>An app page stored and read as a fallback: the content file is written, the
  \<^verbatim>\<open>.rsc\<close> payload is neither written nor read, and the sidecar is not read.\<close>

theorem fallback_skips_payload_witness:
  "FsCall (WriteFile ''d/app/k.rsc'')
     \<notin> set (new_events world0
              (snd (set_cache E0 this0 ''k''
                      (Some (CachedAppPage (Raw ''<p>hi</p>'') None None None None))
                      set_ctx_fallback world0)))
   \<and> FsCall (WriteFile ''d/app/k.html'')
     \<in> set (new_events world0
              (snd (set_cache E0 this0 ''k''
                      (Some (CachedAppPage (Raw ''<p>hi</p>'') None None None None))
                      set_ctx_fallback world0)))
   \<and> FsCall (ReadFile ''d/app/k.rsc'')
     \<notin> set (new_events world_app_page
              (snd (get E0 this0 ''k'' (ctx_fallback APP_PAGE) world_app_page)))
   \<and> FsCall (ReadFile ''d/app/k.meta'')
     \<notin> set (new_events world_app_page
              (snd (get E0 this0 ''k'' (ctx_fallback APP_PAGE) world_app_page)))"
proof -
  let ?v = "CachedAppPage (Raw ''<p>hi</p>'') None None None None"
  have sd: "suffixes_distinct E0"
    by (simp add: suffixes_distinct_def example_defs)
  have h1: "set_isFallback set_ctx_fallback \<and> kind_of ?v \<in> {K_APP_PAGE, K_PAGES}"
    by (simp add: example_defs)
  have p: "''d/app/k.rsc'' \<in> set (payload_paths E0 this0 ''k'' (kind_of ?v = K_APP_PAGE))"
    "''d/app/k.rsc'' \<in> set (payload_paths E0 this0 ''k'' (kind (ctx_fallback APP_PAGE) = APP_PAGE))"
    by (simp_all add: payload_paths_def example_defs)
  have hp: "html_path this0 ''k'' (kind_of ?v = K_APP_PAGE) = ''d/app/k.html''"
    by (simp add: html_path_def example_defs)
  have mp: "meta_path E0 this0 ''k'' = ''d/app/k.meta''"
    by (simp add: meta_path_def replace_suffix_def example_defs)
  have h2: "flushToDisk this0 \<and> has_fs this0
      \<and> \<not> faults world0 (Mkdir (path_dirname (html_path this0 ''k'' (kind_of ?v = K_APP_PAGE))))"
    by (simp add: example_defs)
  have h3: "isFallback (ctx_fallback APP_PAGE)
      \<and> (kind (ctx_fallback APP_PAGE) = APP_PAGE \<or> kind (ctx_fallback APP_PAGE) = PAGES)
      \<and> constructed this0"
    "kind (ctx_fallback APP_PAGE) = APP_PAGE"
    by (simp_all add: constructed_def example_defs)
  note s = fallback_skips_payload[OF sd, of set_ctx_fallback ?v this0 "''k''" world0]
  note g = fallback_skips_payload[OF sd, of _ _ this0 "''k''" world_app_page "ctx_fallback APP_PAGE"]
  have a: "FsCall (WriteFile ''d/app/k.rsc'')
     \<notin> set (new_events world0 (snd (set_cache E0 this0 ''k'' (Some ?v) set_ctx_fallback world0)))"
    using s h1 p(1) by blast
  have b: "FsCall (WriteFile ''d/app/k.html'')
     \<in> set (new_events world0 (snd (set_cache E0 this0 ''k'' (Some ?v) set_ctx_fallback world0)))"
    using s h1 h2 unfolding hp by blast
  have c: "FsCall (ReadFile ''d/app/k.rsc'')
     \<notin> set (new_events world_app_page
              (snd (get E0 this0 ''k'' (ctx_fallback APP_PAGE) world_app_page)))"
    using g h3 p(2) by blast
  have d: "FsCall (ReadFile ''d/app/k.meta'')
     \<notin> set (new_events world_app_page
              (snd (get E0 this0 ''k'' (ctx_fallback APP_PAGE) world_app_page)))"
    using g h3 unfolding mp by blast
  show ?thesis using a b c d by blast
qed

subsection \<open>C10: a route response is not invalidated by tags\<close>

lemma getFilePath_revalidatedTags [simp]:
  "getFilePath (this\<lparr>revalidatedTags := rt\<rparr>) p k = getFilePath this p k"
  by (cases k) simp_all

lemma read_app_route_independent:
  "fst (read_app_route E (this\<lparr>revalidatedTags := rt\<rparr>) key (s\<lparr>tagsManifest := m\<rparr>))
     = fst (read_app_route E this key s)"
  by (simp add: read_app_route_def bind_def fs_readFile_def fs_stat_def JSON_parse_meta_def
        Let_def del: getFilePath.simps split: option.split content.split)

lemma get_app_route_miss:
  assumes "kind ctx = APP_ROUTE" and "mem_get key s = None"
    and "NEXT_RUNTIME E \<noteq> Some ''edge''"
  shows "fst (get E this key ctx s)
     = (case fst (read_app_route E this key s) of
          Inl err \<Rightarrow> Inr None
        | Inr cacheEntry \<Rightarrow> Inr (Some cacheEntry))"
  using assms
  by (simp add: get_def get_candidate_def mem_touch_miss Let_def bind_def try_catch_def
      split: prod.split sum.split)

lemma get_hit:
  assumes "mem_get key s \<noteq> None \<or> NEXT_RUNTIME E = Some ''edge''"
  shows "get E this key ctx s = check_stale E this ctx (mem_get key s) (mem_touch key s)"
  using assms by (auto simp: get_def get_candidate_def bind_def Let_def)

lemma check_stale_Some:
  assumes "fst (check_stale E this ctx d s) = Inr (Some e)"
  shows "d = Some e"
  using assms
  by (auto simp: check_stale_def check_page_cases check_fetch_cases
      split: option.splits IncrementalCacheValue.splits if_splits)

lemma check_stale_route:
  "val e = Some (CachedAppRoute body hs st) \<Longrightarrow> check_stale E this ctx (Some e) s = (Inr (Some e), s)"
  by (simp add: check_stale_def)

text \<open>
  Claim C10. When a \<^verbatim>\<open>get\<close> of kind \<^verbatim>\<open>APP_ROUTE\<close> succeeds with a route response (from
  the memory tier or from the disk), the same call with any other manifest in memory
  and any other list of revalidated tags returns the same entry.
\<close>

theorem get_app_route_ignores_revalidation:
  assumes "kind ctx = APP_ROUTE"
    and "fst (get E this key ctx s) = Inr (Some e)"
    and "val e = Some (CachedAppRoute body hs st)"
  shows "fst (get E (this\<lparr>revalidatedTags := rt\<rparr>) key ctx (s\<lparr>tagsManifest := m\<rparr>))
         = Inr (Some e)"
proof (cases "mem_get key s = None \<and> NEXT_RUNTIME E \<noteq> Some ''edge''")
  case True
  have m: "mem_get key (s\<lparr>tagsManifest := m\<rparr>) = None"
    using True by (simp add: mem_get_def)
  have a: "fst (get E this key ctx s)
      = (case fst (read_app_route E this key s) of
           Inl err \<Rightarrow> Inr None | Inr cacheEntry \<Rightarrow> Inr (Some cacheEntry))"
    using get_app_route_miss[OF assms(1)] True by blast
  have b: "fst (get E (this\<lparr>revalidatedTags := rt\<rparr>) key ctx (s\<lparr>tagsManifest := m\<rparr>))
      = (case fst (read_app_route E (this\<lparr>revalidatedTags := rt\<rparr>) key
                     (s\<lparr>tagsManifest := m\<rparr>)) of
           Inl err \<Rightarrow> Inr None | Inr cacheEntry \<Rightarrow> Inr (Some cacheEntry))"
    using get_app_route_miss[OF assms(1) m] True by blast
  show ?thesis
    using assms(2) unfolding a b read_app_route_independent .
next
  case False
  then have h: "mem_get key s \<noteq> None \<or> NEXT_RUNTIME E = Some ''edge''" by simp
  have h': "mem_get key (s\<lparr>tagsManifest := m\<rparr>) \<noteq> None \<or> NEXT_RUNTIME E = Some ''edge''"
    using h by (simp add: mem_get_def)
  have d: "mem_get key s = Some e"
    using assms(2) check_stale_Some unfolding get_hit[OF h] by blast
  have d': "mem_get key (s\<lparr>tagsManifest := m\<rparr>) = Some e"
    using d by (simp add: mem_get_def)
  show ?thesis
    unfolding get_hit[OF h'] d' check_stale_route[OF assms(3)] by simp
qed

text \<open>The route response on the disk is returned although its key's tag is in the list of
  revalidated tags and the manifest records a later revalidation.\<close>

theorem get_app_route_ignores_revalidation_witness:
  "fst (get E0 (this0\<lparr>revalidatedTags := [''a'']\<rparr>) ''k'' (ctx0 APP_ROUTE)
         (world_route\<lparr>tagsManifest := Some \<lparr>version = 1, items = [(''a'', 2000)]\<rparr>\<rparr>))
   = Inr (Some route_entry)"
proof -
  have k: "kind (ctx0 APP_ROUTE) = APP_ROUTE"
    by (simp add: example_defs)
  have g: "fst (get E0 this0 ''k'' (ctx0 APP_ROUTE) world_route) = Inr (Some route_entry)"
    by (simp add: eval_defs example_defs)
  have v: "val route_entry = Some (CachedAppRoute (Raw ''ok'') None (Some 200))"
    by (simp add: example_defs)
  show ?thesis
    using get_app_route_ignores_revalidation[OF k g v] .
qed

end
